theory Spec2Isabelle
  imports Complex_Main
begin

section \<open>Python values and the chess library the analyzer talks to\<close>

text \<open>
  The embedding follows \<^verbatim>\<open>analyze.py\<close>, \<^verbatim>\<open>database.py\<close> and the batch loop of
  \<^verbatim>\<open>improvement_suggestions.py\<close>.

  Numbers. Engine scores are Python ints (centipawns), modelled as \<open>int\<close>. The values
  in pawns are Python floats obtained by one division \<^verbatim>\<open>x / 100.0\<close> of such an int and are
  only ever compared with \<^verbatim>\<open><=\<close> against the three thresholds. They are modelled by
  the rational number they stand for (\<open>rat\<close>): \<^verbatim>\<open><=\<close> on floats is the order of the
  denoted values, the division is correctly rounded and hence monotone, and the decimal
  literals \<^verbatim>\<open>-1.5\<close>, \<^verbatim>\<open>-0.8\<close>, \<^verbatim>\<open>-0.3\<close> denote the same floats as \<^verbatim>\<open>-150 / 100.0\<close>,
  \<^verbatim>\<open>-80 / 100.0\<close>, \<^verbatim>\<open>-30 / 100.0\<close>. Rounding itself is not modelled.

  Exceptions are values: a call that may raise returns a sum with \<open>Inl\<close> the exception.
\<close>

datatype py_exception =
  ValueError | AttributeError | AssertionError | EngineError | OtherException

subsection \<open>\<^verbatim>\<open>str.lower\<close>\<close>

text \<open>Header names and user names are ASCII; only the letters A to Z change.\<close>

definition lower_char :: "char \<Rightarrow> char" where
  "lower_char c =
     (case map_of (zip ''ABCDEFGHIJKLMNOPQRSTUVWXYZ'' ''abcdefghijklmnopqrstuvwxyz'') c of
        None \<Rightarrow> c
      | Some d \<Rightarrow> d)"

definition lower :: "string \<Rightarrow> string" where
  "lower s = map lower_char s"

subsection \<open>python-chess: scores, games, boards and the engine\<close>

text \<open>
  python-chess is a third-party library, not part of the repository. What the analyzer
  uses of it is collected in the record \<open>chess_lib\<close>, over which every definition below is
  parametric: the board type \<open>'b\<close>, the move type \<open>'m\<close> and the engine state \<open>'e\<close> are
  arbitrary. \<open>push\<close> mutates the board in place and may raise half way, so it returns
  the board it leaves behind together with the exception, if any. \<open>analyse\<close> threads the
  state of the engine process, so that two calls on the same position may answer
  differently; its answer is \<^verbatim>\<open>info.get('score', None)\<close> already turned to White's point of
  view (\<^verbatim>\<open>.white()\<close>).

  \<open>engine_score\<close> is the library's \<^verbatim>\<open>chess.engine.Score\<close> (\<^verbatim>\<open>Cp\<close>, \<^verbatim>\<open>Mate\<close>, \<^verbatim>\<open>MateGiven\<close>)
  and \<open>score\<close> its method \<^verbatim>\<open>Score.score(mate_score=m)\<close>, as the library documents it:
  \<^verbatim>\<open>Cp(n)\<close> gives \<open>n\<close>; \<^verbatim>\<open>Mate(n)\<close> gives \<open>m - n\<close> when \<open>n > 0\<close> and \<open>- m - n\<close> otherwise;
  \<^verbatim>\<open>MateGiven\<close> gives \<open>m\<close> (the library's example: \<^verbatim>\<open>Mate(5).score(mate_score=100000)\<close> is
  \<^verbatim>\<open>99995\<close>).
\<close>

datatype engine_score = Cp int | Mate int | MateGiven

fun score :: "int \<Rightarrow> engine_score \<Rightarrow> int" where
  "score mate_score (Cp n) = n"
| "score mate_score (Mate n) = (if n > 0 then mate_score - n else - mate_score - n)"
| "score mate_score MateGiven = mate_score"

record ('b, 'm) game =
  headers :: "string \<rightharpoonup> string"
  game_board :: "py_exception + 'b"
  mainline_moves :: "'m list"

definition headers_get :: "(string \<rightharpoonup> string) \<Rightarrow> string \<Rightarrow> string \<Rightarrow> string" where
  "headers_get h k dflt = (case h k of None \<Rightarrow> dflt | Some v \<Rightarrow> v)"

record ('b, 'm, 'e) chess_lib =
  popen_uci :: "string \<Rightarrow> py_exception + 'e"
  read_game :: "string \<Rightarrow> py_exception + ('b, 'm) game option"
  turn :: "'b \<Rightarrow> bool"
  fen :: "'b \<Rightarrow> string"
  san :: "'b \<Rightarrow> 'm \<Rightarrow> py_exception + string"
  uci :: "'m \<Rightarrow> string"
  push :: "'b \<Rightarrow> 'm \<Rightarrow> py_exception option \<times> 'b"
  analyse :: "'e \<Rightarrow> 'b \<Rightarrow> (py_exception + engine_score option) \<times> 'e"

section \<open>\<^verbatim>\<open>analyze.py\<close>: class \<^verbatim>\<open>ChessAnalyzer\<close>\<close>

record 'e ChessAnalyzer =
  engine_path :: string
  engine :: "'e option"
  blunder_threshold :: rat
  mistake_threshold :: rat
  inaccuracy_threshold :: rat

definition ChessAnalyzer_init :: "string \<Rightarrow> 'e ChessAnalyzer" where
  "ChessAnalyzer_init path =
     \<lparr>engine_path = path, engine = None,
      blunder_threshold = -1.5, mistake_threshold = -0.8, inaccuracy_threshold = -0.3\<rparr>"

definition initialize_engine ::
  "('b, 'm, 'e) chess_lib \<Rightarrow> 'e ChessAnalyzer \<Rightarrow> bool \<times> 'e ChessAnalyzer" where
  "initialize_engine lib self =
     (case popen_uci lib (engine_path self) of
        Inr en \<Rightarrow> (True, self\<lparr>engine := Some en\<rparr>)
      | Inl e \<Rightarrow> (False, self))"

definition get_error_type :: "'e ChessAnalyzer \<Rightarrow> rat \<Rightarrow> string" where
  "get_error_type self eval_change_pawns =
     (if eval_change_pawns \<le> blunder_threshold self then ''Blunder''
      else if eval_change_pawns \<le> mistake_threshold self then ''Mistake''
      else if eval_change_pawns \<le> inaccuracy_threshold self then ''Inaccuracy''
      else ''Good'')"

record error_record =
  move_number :: int
  move :: string
  fen_before :: string
  eval_before :: rat
  eval_after :: rat
  eval_change :: rat
  san_move :: string
  error_type :: string
  player :: string

text \<open>
  The pieces of the loop body of \<^verbatim>\<open>analyze_game\<close> that compute: the score in centipawns
  (\<^verbatim>\<open>0\<close> when the engine gave none, lines 142-146 and 153-157), the change of evaluation
  for the side that moved (lines 160-165), the division by \<^verbatim>\<open>100.0\<close>, the test
  \<^verbatim>\<open>should_analyze\<close> (line 131) and the dictionary of lines 173-183.
\<close>

definition centipawns :: "engine_score option \<Rightarrow> int" where
  "centipawns ev = (case ev of None \<Rightarrow> 0 | Some s \<Rightarrow> score 10000 s)"

definition eval_change_centipawns :: "bool \<Rightarrow> int \<Rightarrow> int \<Rightarrow> int" where
  "eval_change_centipawns is_white_turn eval_before_centipawns eval_after_centipawns =
     (if is_white_turn then eval_after_centipawns - eval_before_centipawns
      else - eval_after_centipawns - (- eval_before_centipawns))"

definition pawns :: "int \<Rightarrow> rat" where
  "pawns cp = of_int cp / 100"

definition should_analyze :: "bool \<Rightarrow> bool \<Rightarrow> bool \<Rightarrow> bool" where
  "should_analyze is_white_turn is_player_white is_player_black =
     ((is_white_turn \<and> is_player_white) \<or> (\<not> is_white_turn \<and> is_player_black))"

definition make_error ::
  "'e ChessAnalyzer \<Rightarrow> bool \<Rightarrow> int \<Rightarrow> string \<Rightarrow> string \<Rightarrow> string \<Rightarrow> bool \<Rightarrow> int \<Rightarrow> int
     \<Rightarrow> error_record" where
  "make_error self is_player_white move_no move_uci fen_b san_m is_white_turn
       eval_before_centipawns eval_after_centipawns =
     (let eval_change_pawns =
            pawns (eval_change_centipawns is_white_turn eval_before_centipawns
                     eval_after_centipawns)
      in \<lparr>move_number = move_no,
          move = move_uci,
          fen_before = fen_b,
          eval_before = pawns eval_before_centipawns,
          eval_after = pawns eval_after_centipawns,
          eval_change = eval_change_pawns,
          san_move = san_m,
          error_type = get_error_type self eval_change_pawns,
          player = (if is_player_white then ''White'' else ''Black'')\<rparr>)"

text \<open>
  The local variables of the loop that change from ply to ply: the board, the list of
  errors, the move counter, and the state of the engine process.
\<close>

record ('b, 'e) walk_state =
  cur_board :: 'b
  cur_errors :: "error_record list"
  cur_move_number :: int
  cur_engine :: 'e

text \<open>
  \<open>get_san\<close> is the inner \<^verbatim>\<open>try\<close> of lines 135-138: \<^verbatim>\<open>ValueError\<close> and
  \<^verbatim>\<open>AttributeError\<close> fall back to the UCI string, any other exception goes on to the
  handler of the ply.
\<close>

definition get_san :: "('b, 'm, 'e) chess_lib \<Rightarrow> 'b \<Rightarrow> 'm \<Rightarrow> py_exception + string" where
  "get_san lib b mv =
     (case san lib b mv of
        Inr s \<Rightarrow> Inr s
      | Inl ValueError \<Rightarrow> Inr (uci lib mv)
      | Inl AttributeError \<Rightarrow> Inr (uci lib mv)
      | Inl e \<Rightarrow> Inl e)"

text \<open>
  \<open>analyze_move\<close> is the body of the \<^verbatim>\<open>try\<close> of one iteration (lines 126-189). It
  returns the exception that left the body, if any, and the local state at that moment:
  what the body changed before it raised stays changed.
\<close>

definition analyze_move ::
  "('b, 'm, 'e) chess_lib \<Rightarrow> 'e ChessAnalyzer \<Rightarrow> bool \<Rightarrow> bool \<Rightarrow> ('b, 'e) walk_state \<Rightarrow> 'm
     \<Rightarrow> py_exception option \<times> ('b, 'e) walk_state" where
  "analyze_move lib self is_player_white is_player_black st mv =
     (let fen_b = fen lib (cur_board st);
          is_white_turn = turn lib (cur_board st)
      in if should_analyze is_white_turn is_player_white is_player_black then
           (case get_san lib (cur_board st) mv of
              Inl e \<Rightarrow> (Some e, st)
            | Inr san_m \<Rightarrow>
               (case analyse lib (cur_engine st) (cur_board st) of
                  (Inl e, en1) \<Rightarrow> (Some e, st\<lparr>cur_engine := en1\<rparr>)
                | (Inr eval_b, en1) \<Rightarrow>
                   (case push lib (cur_board st) mv of
                      (Some e, b1) \<Rightarrow> (Some e, st\<lparr>cur_board := b1, cur_engine := en1\<rparr>)
                    | (None, b1) \<Rightarrow>
                       (case analyse lib en1 b1 of
                          (Inl e, en2) \<Rightarrow> (Some e, st\<lparr>cur_board := b1, cur_engine := en2\<rparr>)
                        | (Inr eval_a, en2) \<Rightarrow>
                           (let eval_change_pawns =
                                  pawns (eval_change_centipawns is_white_turn
                                           (centipawns eval_b) (centipawns eval_a));
                                errs =
                                  (if eval_change_pawns \<le> inaccuracy_threshold self
                                   then cur_errors st @
                                     [make_error self is_player_white (cur_move_number st)
                                        (uci lib mv) fen_b san_m is_white_turn
                                        (centipawns eval_b) (centipawns eval_a)]
                                   else cur_errors st)
                            in (None, \<lparr>cur_board = b1, cur_errors = errs,
                                       cur_move_number = cur_move_number st + 1,
                                       cur_engine = en2\<rparr>))))))
         else
           (case push lib (cur_board st) mv of
              (Some e, b1) \<Rightarrow> (Some e, st\<lparr>cur_board := b1\<rparr>)
            | (None, b1) \<Rightarrow>
               (None, st\<lparr>cur_board := b1, cur_move_number := cur_move_number st + 1\<rparr>)))"

text \<open>
  For stating what the loop body computes: \<open>engine_answers\<close> gives what the engine
  answers on the board of a state before a move and on the board after it is pushed,
  with that board and the engine state left behind, when the two calls and the push
  between them all return.
\<close>

definition engine_answers ::
  "('b, 'm, 'e) chess_lib \<Rightarrow> ('b, 'e) walk_state \<Rightarrow> 'm
     \<Rightarrow> (engine_score option \<times> engine_score option \<times> 'b \<times> 'e) option" where
  "engine_answers lib st mv =
     (case analyse lib (cur_engine st) (cur_board st) of
        (Inl e, en1) \<Rightarrow> None
      | (Inr eval_b, en1) \<Rightarrow>
         (case push lib (cur_board st) mv of
            (Some e, b1) \<Rightarrow> None
          | (None, b1) \<Rightarrow>
             (case analyse lib en1 b1 of
                (Inl e, en2) \<Rightarrow> None
              | (Inr eval_a, en2) \<Rightarrow> Some (eval_b, eval_a, b1, en2))))"

text \<open>
  \<open>analyze_moves\<close> is the \<^verbatim>\<open>for\<close> loop over the main line with its handler (lines
  124-199): after an exception the move is pushed (again, if the body had pushed it
  already) and the loop goes on; when that push raises too, the loop is left.
\<close>

fun analyze_moves ::
  "('b, 'm, 'e) chess_lib \<Rightarrow> 'e ChessAnalyzer \<Rightarrow> bool \<Rightarrow> bool \<Rightarrow> ('b, 'e) walk_state \<Rightarrow> 'm list
     \<Rightarrow> ('b, 'e) walk_state" where
  "analyze_moves lib self is_player_white is_player_black st [] = st"
| "analyze_moves lib self is_player_white is_player_black st (mv # mvs) =
     (case analyze_move lib self is_player_white is_player_black st mv of
        (None, st1) \<Rightarrow> analyze_moves lib self is_player_white is_player_black st1 mvs
      | (Some e, st1) \<Rightarrow>
         (case push lib (cur_board st1) mv of
            (None, b2) \<Rightarrow>
              analyze_moves lib self is_player_white is_player_black
                (st1\<lparr>cur_board := b2, cur_move_number := cur_move_number st1 + 1\<rparr>) mvs
          | (Some e2, b2) \<Rightarrow> st1\<lparr>cur_board := b2\<rparr>))"

text \<open>
  For stating which plies the loop goes through: \<open>visited_plies\<close> lists, for every
  iteration the loop enters, the local state at its start together with its move. It
  follows \<open>analyze_moves\<close> case by case.
\<close>

fun visited_plies ::
  "('b, 'm, 'e) chess_lib \<Rightarrow> 'e ChessAnalyzer \<Rightarrow> bool \<Rightarrow> bool \<Rightarrow> ('b, 'e) walk_state \<Rightarrow> 'm list
     \<Rightarrow> (('b, 'e) walk_state \<times> 'm) list" where
  "visited_plies lib self is_player_white is_player_black st [] = []"
| "visited_plies lib self is_player_white is_player_black st (mv # mvs) =
     (st, mv) #
     (case analyze_move lib self is_player_white is_player_black st mv of
        (None, st1) \<Rightarrow> visited_plies lib self is_player_white is_player_black st1 mvs
      | (Some e, st1) \<Rightarrow>
         (case push lib (cur_board st1) mv of
            (None, b2) \<Rightarrow>
              visited_plies lib self is_player_white is_player_black
                (st1\<lparr>cur_board := b2, cur_move_number := cur_move_number st1 + 1\<rparr>) mvs
          | (Some e2, b2) \<Rightarrow> []))"

text \<open>
  The record the specification asks for on a ply (section 4.4, steps a to f), written out
  to compare the code with: from the state before the move, the move, its rendering and
  the two centipawn scores before and after the move, both from White's point of view.
  The change of evaluation is \<open>after - before\<close> when White is to move and
  \<open>(- after) - (- before)\<close> when Black is, in pawns.
\<close>

definition spec_error_record ::
  "('b, 'm, 'e) chess_lib \<Rightarrow> 'e ChessAnalyzer \<Rightarrow> bool \<Rightarrow> ('b, 'e) walk_state \<Rightarrow> 'm \<Rightarrow> string
     \<Rightarrow> int \<Rightarrow> int \<Rightarrow> error_record" where
  "spec_error_record lib self is_player_white st mv san_m before after =
     \<lparr>move_number = cur_move_number st,
      move = uci lib mv,
      fen_before = fen lib (cur_board st),
      eval_before = of_int before / 100,
      eval_after = of_int after / 100,
      eval_change =
        of_int (if turn lib (cur_board st) then after - before else (- after) - (- before))
          / 100,
      san_move = san_m,
      error_type =
        get_error_type self
          (of_int (if turn lib (cur_board st) then after - before else (- after) - (- before))
             / 100),
      player = (if is_player_white then ''White'' else ''Black'')\<rparr>"

text \<open>
  \<open>analyze_game_try\<close> is the outer \<^verbatim>\<open>try\<close> block (lines 100-201) once an engine is at
  hand; \<open>analyze_game\<close> adds the acquisition of the engine (lines 95-97) and the outer
  handler (lines 203-205), which answers the empty list. The result is a sum so that
  "does not raise" is a statement about the value; the analyzer is returned as the
  calls leave it.
\<close>

definition analyze_game_try ::
  "('b, 'm, 'e) chess_lib \<Rightarrow> 'e ChessAnalyzer \<Rightarrow> 'e \<Rightarrow> string \<Rightarrow> string
     \<Rightarrow> py_exception + error_record list \<times> 'e" where
  "analyze_game_try lib self en pgn username =
     (case read_game lib pgn of
        Inl e \<Rightarrow> Inl e
      | Inr None \<Rightarrow> Inr ([], en)
      | Inr (Some gm) \<Rightarrow>
         (let white_player = lower (headers_get (headers gm) ''White'' []);
              black_player = lower (headers_get (headers gm) ''Black'' []);
              username_lower = lower username
          in if username_lower \<notin> set [white_player, black_player] then Inr ([], en)
             else
               (let is_player_white = (username_lower = white_player);
                    is_player_black = (username_lower = black_player)
                in case game_board gm of
                     Inl e \<Rightarrow> Inl e
                   | Inr b \<Rightarrow>
                      (let st = analyze_moves lib self is_player_white is_player_black
                                  \<lparr>cur_board = b, cur_errors = [], cur_move_number = 1,
                                   cur_engine = en\<rparr>
                                  (mainline_moves gm)
                       in Inr (cur_errors st, cur_engine st)))))"

definition analyze_game_with ::
  "('b, 'm, 'e) chess_lib \<Rightarrow> 'e ChessAnalyzer \<Rightarrow> 'e \<Rightarrow> string \<Rightarrow> string
     \<Rightarrow> (py_exception + error_record list) \<times> 'e ChessAnalyzer" where
  "analyze_game_with lib self en pgn username =
     (case analyze_game_try lib self en pgn username of
        Inl e \<Rightarrow> (Inr [], self)
      | Inr (errs, en1) \<Rightarrow> (Inr errs, self\<lparr>engine := Some en1\<rparr>))"

definition analyze_game ::
  "('b, 'm, 'e) chess_lib \<Rightarrow> 'e ChessAnalyzer \<Rightarrow> string \<Rightarrow> string
     \<Rightarrow> (py_exception + error_record list) \<times> 'e ChessAnalyzer" where
  "analyze_game lib self pgn username =
     (case engine self of
        Some en \<Rightarrow> analyze_game_with lib self en pgn username
      | None \<Rightarrow>
         (case initialize_engine lib self of
            (False, self1) \<Rightarrow> (Inr [], self1)
          | (True, self1) \<Rightarrow>
             (case engine self1 of
                None \<Rightarrow> (Inr [], self1)
              | Some en \<Rightarrow> analyze_game_with lib self1 en pgn username)))"

section \<open>A deterministic stub of the library\<close>

text \<open>
  For concrete runs: a board is the number of plies applied so far (White moves on even
  boards), a move is its UCI string, the engine state counts the calls of \<open>analyse\<close>,
  and the engine answers \<open>ev b\<close> on board \<open>b\<close>. \<open>push\<close> raises on the boards in
  \<open>stuck\<close>.
\<close>

definition stub_fen :: "nat \<Rightarrow> string" where
  "stub_fen b = replicate b (CHR ''+'') @ (if even b then '' w'' else '' b'')"

definition stub_lib ::
  "(string \<rightharpoonup> string) \<Rightarrow> string list \<Rightarrow> (nat \<Rightarrow> py_exception + engine_score option)
     \<Rightarrow> nat list \<Rightarrow> (nat, string, nat) chess_lib" where
  "stub_lib hdrs mvs ev stuck =
     \<lparr>popen_uci = (\<lambda>path. Inr 0),
      read_game = (\<lambda>pgn. Inr (Some \<lparr>headers = hdrs, game_board = Inr 0,
                                     mainline_moves = mvs\<rparr>)),
      turn = even,
      fen = stub_fen,
      san = (\<lambda>b mv. Inr mv),
      uci = (\<lambda>mv. mv),
      push = (\<lambda>b mv. if b \<in> set stuck then (Some AssertionError, b) else (None, Suc b)),
      analyse = (\<lambda>en b. (ev b, Suc en))\<rparr>"

text \<open>
  Inputs for the concrete runs below: engine answers given as a list of centipawn
  scores indexed by the board (no score beyond the list), and two header maps.
\<close>

definition scores_of :: "int list \<Rightarrow> nat \<Rightarrow> py_exception + engine_score option" where
  "scores_of cps b = (if b < length cps then Inr (Some (Cp (cps ! b))) else Inr None)"

definition alice_bob :: "string \<rightharpoonup> string" where
  "alice_bob = [''White'' \<mapsto> ''Alice'', ''Black'' \<mapsto> ''bob'']"

definition alice_alice :: "string \<rightharpoonup> string" where
  "alice_alice = [''White'' \<mapsto> ''alice'', ''Black'' \<mapsto> ''alice'']"

section \<open>\<^verbatim>\<open>database.py\<close>: class \<^verbatim>\<open>ChessDatabase\<close>\<close>

text \<open>
  The two SQLite tables as values. \<open>games\<close> has one row per \<^verbatim>\<open>game_id\<close> (the column is
  \<^verbatim>\<open>UNIQUE\<close>), so it is a map from the identifier to the rest of the row; \<open>analysis\<close> is
  the list of its rows in insertion order, each a \<^verbatim>\<open>game_id\<close> with the fields of one
  error. \<^verbatim>\<open>ORDER BY move_number\<close> is a stable sort here (SQL leaves the order of rows with
  equal keys open). The hash \<^verbatim>\<open>hashlib.md5(...).hexdigest()\<close> belongs to the standard
  library and is a parameter, \<open>md5_hexdigest\<close>. A string is its list of characters, so
  \<^verbatim>\<open>pgn[:100]\<close> is \<open>take 100\<close>.
\<close>

record game_row =
  row_username :: string
  row_pgn :: string
  row_white_player :: string
  row_black_player :: string
  row_result :: string
  row_date_played :: string
  row_analyzed :: bool

record ChessDatabase =
  games :: "string \<rightharpoonup> game_row"
  analysis :: "(string \<times> error_record) list"

text \<open>A game as the Chess.com API returns it, with the keys the code reads.\<close>

record api_game =
  g_pgn :: "string option"
  g_white_username :: string
  g_black_username :: string
  g_white_result :: string
  g_end_time :: string
  g_game_id :: "string option"

definition generate_game_id :: "(string \<Rightarrow> string) \<Rightarrow> string \<Rightarrow> string \<Rightarrow> string" where
  "generate_game_id md5_hexdigest pgn_text username =
     (let content = take 100 pgn_text @ username in md5_hexdigest content)"

definition game_exists :: "ChessDatabase \<Rightarrow> string \<Rightarrow> bool" where
  "game_exists db gid = (games db gid \<noteq> None)"


definition add_game ::
  "(string \<Rightarrow> string) \<Rightarrow> ChessDatabase \<Rightarrow> api_game \<Rightarrow> string \<Rightarrow> string \<times> ChessDatabase" where
  "add_game md5_hexdigest db game_data username =
     (let pgn_text = (case g_pgn game_data of None \<Rightarrow> [] | Some p \<Rightarrow> p);
          gid = generate_game_id md5_hexdigest pgn_text username
      in if game_exists db gid then (gid, db)
         else (gid, db\<lparr>games := (games db)(gid \<mapsto>
                 \<lparr>row_username = username, row_pgn = pgn_text,
                  row_white_player = g_white_username game_data,
                  row_black_player = g_black_username game_data,
                  row_result = g_white_result game_data,
                  row_date_played = g_end_time game_data,
                  row_analyzed = False\<rparr>)\<rparr>))"


definition get_analysis :: "ChessDatabase \<Rightarrow> string \<Rightarrow> error_record list" where
  "get_analysis db gid =
     sort_key move_number (map snd (filter (\<lambda>(g, r). g = gid) (analysis db)))"

section \<open>\<^verbatim>\<open>improvement_suggestions.py\<close>: the batch loop of \<^verbatim>\<open>main\<close>\<close>












section \<open>Lemmas about the loop over the moves\<close>

lemmas stub_defs = stub_lib_def stub_fen_def scores_of_def alice_bob_def alice_alice_def

lemmas run_defs = analyze_game_def analyze_game_with_def analyze_game_try_def
  ChessAnalyzer_init_def initialize_engine_def lower_def lower_char_def headers_get_def
  analyze_move_def should_analyze_def get_san_def centipawns_def eval_change_centipawns_def
  pawns_def make_error_def get_error_type_def Let_def

text \<open>
  One iteration either leaves the list of errors alone or appends one record, built by
  \<open>make_error\<close> from the board before the move and two scores whose difference is at most
  the inaccuracy threshold; an iteration that raises appends nothing.
\<close>

lemma analyze_move_errors:
  assumes "analyze_move lib self ipw ipb st mv = (x, st1)"
  shows "cur_errors st1 = cur_errors st \<or>
         (\<exists>san_m eb ea. x = None \<and> should_analyze (turn lib (cur_board st)) ipw ipb \<and>
            pawns (eval_change_centipawns (turn lib (cur_board st)) eb ea)
              \<le> inaccuracy_threshold self \<and>
            cur_errors st1 = cur_errors st @
              [make_error self ipw (cur_move_number st) (uci lib mv) (fen lib (cur_board st))
                 san_m (turn lib (cur_board st)) eb ea])"
  using assms
  by (auto simp: analyze_move_def Let_def split: if_splits sum.splits prod.splits option.splits)
    blast+

lemma analyze_move_raises_errors:
  assumes "analyze_move lib self ipw ipb st mv = (Some e, st1)"
  shows "cur_errors st1 = cur_errors st"
  using analyze_move_errors[OF assms] by auto

lemma analyze_moves_errors:
  assumes "r \<in> set (cur_errors (analyze_moves lib self ipw ipb st mvs))"
  shows "r \<in> set (cur_errors st) \<or>
     (\<exists>b mv mn san_m eb ea. mv \<in> set mvs \<and> should_analyze (turn lib b) ipw ipb \<and>
        pawns (eval_change_centipawns (turn lib b) eb ea) \<le> inaccuracy_threshold self \<and>
        r = make_error self ipw mn (uci lib mv) (fen lib b) san_m (turn lib b) eb ea)"
proof -
  define new where "new ms \<longleftrightarrow> (\<exists>b mv mn san_m eb ea. mv \<in> set ms \<and>
        should_analyze (turn lib b) ipw ipb \<and>
        pawns (eval_change_centipawns (turn lib b) eb ea) \<le> inaccuracy_threshold self \<and>
        r = make_error self ipw mn (uci lib mv) (fen lib b) san_m (turn lib b) eb ea)" for ms
  have later: "new ms \<Longrightarrow> new (m # ms)" for m ms
    unfolding new_def by (elim exE conjE, intro exI conjI) (simp_all (no_asm_simp))
  have here: "r \<in> set (cur_errors s1) \<Longrightarrow> r \<in> set (cur_errors s) \<or> new (m # ms)"
    if step: "analyze_move lib self ipw ipb s m = (x, s1)" for s s1 m ms x
  proof -
    assume r: "r \<in> set (cur_errors s1)"
    from analyze_move_errors[OF step] show ?thesis
    proof
      assume "cur_errors s1 = cur_errors s"
      with r show ?thesis by simp
    next
      assume "\<exists>san_m eb ea. x = None \<and> should_analyze (turn lib (cur_board s)) ipw ipb \<and>
            pawns (eval_change_centipawns (turn lib (cur_board s)) eb ea)
              \<le> inaccuracy_threshold self \<and>
            cur_errors s1 = cur_errors s @
              [make_error self ipw (cur_move_number s) (uci lib m) (fen lib (cur_board s))
                 san_m (turn lib (cur_board s)) eb ea]"
      then obtain san_m eb ea where
        sa: "should_analyze (turn lib (cur_board s)) ipw ipb" and
        le: "pawns (eval_change_centipawns (turn lib (cur_board s)) eb ea)
              \<le> inaccuracy_threshold self" and
        eq: "cur_errors s1 = cur_errors s @
              [make_error self ipw (cur_move_number s) (uci lib m) (fen lib (cur_board s))
                 san_m (turn lib (cur_board s)) eb ea]"
        by blast
      from r eq have "r \<in> set (cur_errors s) \<or>
          r = make_error self ipw (cur_move_number s) (uci lib m) (fen lib (cur_board s))
                 san_m (turn lib (cur_board s)) eb ea" by auto
      then show ?thesis
      proof
        assume "r \<in> set (cur_errors s)" then show ?thesis by simp
      next
        assume "r = make_error self ipw (cur_move_number s) (uci lib m)
                 (fen lib (cur_board s)) san_m (turn lib (cur_board s)) eb ea"
        with sa le have "new (m # ms)"
          unfolding new_def
          by (intro exI[of _ "cur_board s"] exI[of _ m] exI[of _ "cur_move_number s"]
                exI[of _ san_m] exI[of _ eb] exI[of _ ea]) simp
        then show ?thesis by simp
      qed
    qed
  qed
  have "r \<in> set (cur_errors (analyze_moves lib self ipw ipb s ms))
          \<Longrightarrow> r \<in> set (cur_errors s) \<or> new ms" for s ms
  proof (induction ms arbitrary: s)
    case Nil
    then show ?case by simp
  next
    case (Cons m ms)
    obtain x s1 where step: "analyze_move lib self ipw ipb s m = (x, s1)"
      by (cases "analyze_move lib self ipw ipb s m") auto
    obtain y b2 where ps: "push lib (cur_board s1) m = (y, b2)"
      by (cases "push lib (cur_board s1) m") auto
    note h = here[OF step, of ms]
    show ?case
    proof (cases x)
      case None
      with Cons.prems step have "r \<in> set (cur_errors (analyze_moves lib self ipw ipb s1 ms))"
        by simp
      from Cons.IH[OF this] h later show ?thesis by blast
    next
      case (Some e)
      show ?thesis
      proof (cases y)
        case None
        let ?s2 = "s1\<lparr>cur_board := b2, cur_move_number := cur_move_number s1 + 1\<rparr>"
        from Cons.prems step Some ps None
        have "r \<in> set (cur_errors (analyze_moves lib self ipw ipb ?s2 ms))" by simp
        from Cons.IH[OF this] have "r \<in> set (cur_errors s1) \<or> new ms" by simp
        with h later show ?thesis by blast
      next
        case (Some e2)
        with Cons.prems step \<open>x = Some e\<close> ps have "r \<in> set (cur_errors s1)" by simp
        with h show ?thesis by blast
      qed
    qed
  qed
  from this[OF assms] show ?thesis unfolding new_def .
qed

lemma analyze_moves_prefix:
  "\<exists>new. cur_errors (analyze_moves lib self ipw ipb st mvs) = cur_errors st @ new"
proof (induction mvs arbitrary: st)
  case Nil
  then show ?case by simp
next
  case (Cons mv mvs)
  obtain x st1 where step: "analyze_move lib self ipw ipb st mv = (x, st1)"
    by (cases "analyze_move lib self ipw ipb st mv") auto
  obtain y b2 where ps: "push lib (cur_board st1) mv = (y, b2)"
    by (cases "push lib (cur_board st1) mv") auto
  from analyze_move_errors[OF step] obtain n1 where n1: "cur_errors st1 = cur_errors st @ n1"
    by auto
  show ?case
  proof (cases x)
    case None
    from Cons.IH[of st1] obtain n2 where
      "cur_errors (analyze_moves lib self ipw ipb st1 mvs) = cur_errors st1 @ n2" by blast
    with step None n1 show ?thesis by simp
  next
    case (Some e)
    show ?thesis
    proof (cases y)
      case None
      let ?st2 = "st1\<lparr>cur_board := b2, cur_move_number := cur_move_number st1 + 1\<rparr>"
      from Cons.IH[of ?st2] obtain n2 where
        "cur_errors (analyze_moves lib self ipw ipb ?st2 mvs) = cur_errors ?st2 @ n2" by blast
      with step Some ps None n1 show ?thesis by simp
    next
      case (Some e2)
      with step \<open>x = Some e\<close> ps n1 show ?thesis by simp
    qed
  qed
qed


lemma make_error_engine_update [simp]:
  "make_error (self\<lparr>engine := x\<rparr>) = make_error self"
  by (intro ext) (simp add: make_error_def get_error_type_def Let_def)

lemma analyze_game_try_errors:
  assumes "analyze_game_try lib self en pgn_text username = Inr (errs, en1)"
    and "r \<in> set errs"
  shows "\<exists>gm b mv mn san_m eb ea.
      read_game lib pgn_text = Inr (Some gm) \<and> mv \<in> set (mainline_moves gm) \<and>
      should_analyze (turn lib b)
        (lower username = lower (headers_get (headers gm) ''White'' []))
        (lower username = lower (headers_get (headers gm) ''Black'' [])) \<and>
      pawns (eval_change_centipawns (turn lib b) eb ea) \<le> inaccuracy_threshold self \<and>
      r = make_error self (lower username = lower (headers_get (headers gm) ''White'' []))
            mn (uci lib mv) (fen lib b) san_m (turn lib b) eb ea"
proof -
  from assms obtain gm where gm: "read_game lib pgn_text = Inr (Some gm)"
    by (auto simp: analyze_game_try_def split: sum.splits option.splits)
  let ?w = "lower username = lower (headers_get (headers gm) ''White'' [])"
  let ?b = "lower username = lower (headers_get (headers gm) ''Black'' [])"
  from assms gm obtain b0 where b0: "game_board gm = Inr b0"
    and errs: "errs = cur_errors (analyze_moves lib self ?w ?b
        \<lparr>cur_board = b0, cur_errors = [], cur_move_number = 1, cur_engine = en\<rparr>
        (mainline_moves gm))"
    by (auto simp: analyze_game_try_def Let_def split: sum.splits if_splits)
  from assms(2) errs analyze_moves_errors[of r lib self ?w ?b
      "\<lparr>cur_board = b0, cur_errors = [], cur_move_number = 1, cur_engine = en\<rparr>"
      "mainline_moves gm"] gm
  show ?thesis by simp
qed

lemma analyze_game_with_errors:
  assumes "analyze_game_with lib self en pgn_text username = (Inr errs, self1)"
    and "r \<in> set errs"
  shows "\<exists>gm b mv mn san_m eb ea.
      read_game lib pgn_text = Inr (Some gm) \<and> mv \<in> set (mainline_moves gm) \<and>
      should_analyze (turn lib b)
        (lower username = lower (headers_get (headers gm) ''White'' []))
        (lower username = lower (headers_get (headers gm) ''Black'' [])) \<and>
      pawns (eval_change_centipawns (turn lib b) eb ea) \<le> inaccuracy_threshold self \<and>
      r = make_error self (lower username = lower (headers_get (headers gm) ''White'' []))
            mn (uci lib mv) (fen lib b) san_m (turn lib b) eb ea"
proof (cases "analyze_game_try lib self en pgn_text username")
  case (Inl e)
  with assms show ?thesis by (simp add: analyze_game_with_def)
next
  case (Inr p)
  obtain es en1 where p: "p = (es, en1)" by (cases p)
  with Inr assms have "es = errs" by (simp add: analyze_game_with_def)
  with Inr p analyze_game_try_errors[of lib self en pgn_text username errs en1 r] assms(2)
  show ?thesis by simp
qed

lemma analyze_game_errors:
  assumes "analyze_game lib self pgn_text username = (Inr errs, self1)"
    and "r \<in> set errs"
  shows "\<exists>gm b mv mn san_m eb ea.
      read_game lib pgn_text = Inr (Some gm) \<and> mv \<in> set (mainline_moves gm) \<and>
      should_analyze (turn lib b)
        (lower username = lower (headers_get (headers gm) ''White'' []))
        (lower username = lower (headers_get (headers gm) ''Black'' [])) \<and>
      pawns (eval_change_centipawns (turn lib b) eb ea) \<le> inaccuracy_threshold self \<and>
      r = make_error self (lower username = lower (headers_get (headers gm) ''White'' []))
            mn (uci lib mv) (fen lib b) san_m (turn lib b) eb ea"
proof (cases "engine self")
  case (Some en)
  with assms have "analyze_game_with lib self en pgn_text username = (Inr errs, self1)"
    by (simp add: analyze_game_def)
  from analyze_game_with_errors[OF this assms(2)] show ?thesis .
next
  case None
  with assms obtain en where
    "analyze_game_with lib (self\<lparr>engine := Some en\<rparr>) en pgn_text username = (Inr errs, self1)"
    by (auto simp: analyze_game_def initialize_engine_def split: sum.splits)
  from analyze_game_with_errors[OF this assms(2)] show ?thesis by simp
qed

lemma analyze_game_returns:
  "\<exists>errs self1. analyze_game lib self pgn_text username = (Inr errs, self1)"
  by (simp add: analyze_game_def analyze_game_with_def initialize_engine_def
        split: option.splits sum.splits prod.splits bool.splits)

text \<open>
  The records of the loop against the plies it visits and the answers of the engine
  there: every record comes from a visited ply, and a visited ply whose evaluation
  completes leaves its record in the list when the change is at most the threshold.
\<close>

lemma make_error_spec:
  "make_error self ipw (cur_move_number st) (uci lib mv) (fen lib (cur_board st)) san_m
     (turn lib (cur_board st)) before after
   = spec_error_record lib self ipw st mv san_m before after"
  by (simp add: make_error_def spec_error_record_def eval_change_centipawns_def pawns_def
        Let_def)

lemma eval_change_spec:
  "eval_change (spec_error_record lib self ipw st mv san_m before after)
     = pawns (eval_change_centipawns (turn lib (cur_board st)) before after)"
  by (simp add: spec_error_record_def eval_change_centipawns_def pawns_def)

lemma analyze_move_evaluated:
  assumes "should_analyze (turn lib (cur_board st)) ipw ipb"
    and "get_san lib (cur_board st) mv = Inr san_m"
    and "engine_answers lib st mv = Some (eval_b, eval_a, b_next, en_end)"
  shows "analyze_move lib self ipw ipb st mv =
     (None, \<lparr>cur_board = b_next,
        cur_errors =
          (if eval_change (spec_error_record lib self ipw st mv san_m
                             (centipawns eval_b) (centipawns eval_a))
                \<le> inaccuracy_threshold self
           then cur_errors st @
                  [spec_error_record lib self ipw st mv san_m
                     (centipawns eval_b) (centipawns eval_a)]
           else cur_errors st),
        cur_move_number = cur_move_number st + 1, cur_engine = en_end\<rparr>)"
proof -
  from assms(3) obtain en_mid where
    "analyse lib (cur_engine st) (cur_board st) = (Inr eval_b, en_mid)"
    "push lib (cur_board st) mv = (None, b_next)"
    "analyse lib en_mid b_next = (Inr eval_a, en_end)"
    by (auto simp: engine_answers_def split: prod.splits sum.splits option.splits)
  with assms(1,2) show ?thesis
    by (simp add: analyze_move_def Let_def make_error_spec eval_change_spec)
qed

lemma analyze_move_appends:
  assumes "analyze_move lib self ipw ipb st mv = (x, st1)"
  shows "cur_errors st1 = cur_errors st \<or>
     (\<exists>san_m eval_b eval_a b_next en_end.
        should_analyze (turn lib (cur_board st)) ipw ipb \<and>
        get_san lib (cur_board st) mv = Inr san_m \<and>
        engine_answers lib st mv = Some (eval_b, eval_a, b_next, en_end) \<and>
        cur_errors st1 = cur_errors st @
          [spec_error_record lib self ipw st mv san_m (centipawns eval_b) (centipawns eval_a)])"
proof (cases "should_analyze (turn lib (cur_board st)) ipw ipb")
  case False
  with assms show ?thesis
    by (auto simp: analyze_move_def Let_def split: prod.splits option.splits)
next
  case sa: True
  show ?thesis
  proof (cases "get_san lib (cur_board st) mv")
    case (Inl e)
    with assms sa show ?thesis by (simp add: analyze_move_def Let_def)
  next
    case (Inr san_m)
    show ?thesis
    proof (cases "engine_answers lib st mv")
      case None
      with assms sa Inr have "cur_errors st1 = cur_errors st"
        by (auto simp: analyze_move_def engine_answers_def Let_def
              split: prod.splits sum.splits option.splits)
      then show ?thesis by simp
    next
      case (Some t)
      obtain eval_b eval_a b_next en_end where t: "t = (eval_b, eval_a, b_next, en_end)"
        by (cases t)
      from analyze_move_evaluated[OF sa Inr Some[unfolded t], of self] assms
      have "cur_errors st1 = cur_errors st \<or> cur_errors st1 = cur_errors st @
          [spec_error_record lib self ipw st mv san_m (centipawns eval_b) (centipawns eval_a)]"
        by (auto split: if_splits)
      with sa Inr Some t show ?thesis by blast
    qed
  qed
qed

lemma analyze_moves_step:
  "analyze_moves lib self ipw ipb st (mv # mvs) = st2 \<Longrightarrow>
   (\<exists>st1. analyze_move lib self ipw ipb st mv = (None, st1)
           \<and> st2 = analyze_moves lib self ipw ipb st1 mvs
           \<and> visited_plies lib self ipw ipb st (mv # mvs)
                = (st, mv) # visited_plies lib self ipw ipb st1 mvs)
   \<or> (\<exists>e st1 b2. analyze_move lib self ipw ipb st mv = (Some e, st1)
           \<and> push lib (cur_board st1) mv = (None, b2)
           \<and> st2 = analyze_moves lib self ipw ipb
                     (st1\<lparr>cur_board := b2, cur_move_number := cur_move_number st1 + 1\<rparr>) mvs
           \<and> visited_plies lib self ipw ipb st (mv # mvs)
                = (st, mv) # visited_plies lib self ipw ipb
                     (st1\<lparr>cur_board := b2, cur_move_number := cur_move_number st1 + 1\<rparr>) mvs)
   \<or> (\<exists>e st1 e2 b2. analyze_move lib self ipw ipb st mv = (Some e, st1)
           \<and> push lib (cur_board st1) mv = (Some e2, b2)
           \<and> st2 = st1\<lparr>cur_board := b2\<rparr>
           \<and> visited_plies lib self ipw ipb st (mv # mvs) = [(st, mv)])"
  by (auto split: prod.splits option.splits)

lemma records_come_from_visited_plies:
  assumes "r \<in> set (cur_errors (analyze_moves lib self ipw ipb st mvs))"
  shows "r \<in> set (cur_errors st) \<or>
     (\<exists>(s, mv) \<in> set (visited_plies lib self ipw ipb st mvs).
        \<exists>san_m eval_b eval_a b_next en_end.
          should_analyze (turn lib (cur_board s)) ipw ipb \<and>
          get_san lib (cur_board s) mv = Inr san_m \<and>
          engine_answers lib s mv = Some (eval_b, eval_a, b_next, en_end) \<and>
          r = spec_error_record lib self ipw s mv san_m (centipawns eval_b) (centipawns eval_a))"
proof -
  define src where "src p \<longleftrightarrow> (case p of (s, mv) \<Rightarrow>
        \<exists>san_m eval_b eval_a b_next en_end.
          should_analyze (turn lib (cur_board s)) ipw ipb \<and>
          get_san lib (cur_board s) mv = Inr san_m \<and>
          engine_answers lib s mv = Some (eval_b, eval_a, b_next, en_end) \<and>
          r = spec_error_record lib self ipw s mv san_m (centipawns eval_b) (centipawns eval_a))"
    for p
  have here: "r \<in> set (cur_errors s1) \<Longrightarrow> r \<in> set (cur_errors s) \<or> src (s, m)"
    if "analyze_move lib self ipw ipb s m = (x, s1)" for s s1 m x
    using analyze_move_appends[OF that] unfolding src_def by auto
  have "r \<in> set (cur_errors (analyze_moves lib self ipw ipb s ms)) \<Longrightarrow>
        r \<in> set (cur_errors s) \<or> (\<exists>p \<in> set (visited_plies lib self ipw ipb s ms). src p)"
    for s ms
  proof (induction ms arbitrary: s)
    case Nil
    then show ?case by simp
  next
    case (Cons m ms)
    from analyze_moves_step[OF refl, of lib self ipw ipb s m ms]
    consider (ok) s1 where "analyze_move lib self ipw ipb s m = (None, s1)"
        "analyze_moves lib self ipw ipb s (m # ms) = analyze_moves lib self ipw ipb s1 ms"
        "visited_plies lib self ipw ipb s (m # ms) = (s, m) # visited_plies lib self ipw ipb s1 ms"
      | (go) e s1 b2 where "analyze_move lib self ipw ipb s m = (Some e, s1)"
        "analyze_moves lib self ipw ipb s (m # ms) = analyze_moves lib self ipw ipb
           (s1\<lparr>cur_board := b2, cur_move_number := cur_move_number s1 + 1\<rparr>) ms"
        "visited_plies lib self ipw ipb s (m # ms) = (s, m) # visited_plies lib self ipw ipb
           (s1\<lparr>cur_board := b2, cur_move_number := cur_move_number s1 + 1\<rparr>) ms"
      | (stop) e s1 b2 where "analyze_move lib self ipw ipb s m = (Some e, s1)"
        "analyze_moves lib self ipw ipb s (m # ms) = s1\<lparr>cur_board := b2\<rparr>"
        "visited_plies lib self ipw ipb s (m # ms) = [(s, m)]"
      by blast
    then show ?case
    proof cases
      case ok
      from Cons.prems ok(2) have "r \<in> set (cur_errors (analyze_moves lib self ipw ipb s1 ms))"
        by simp
      from Cons.IH[OF this] here[OF ok(1)] show ?thesis unfolding ok(3) by auto
    next
      case go
      let ?s2 = "s1\<lparr>cur_board := b2, cur_move_number := cur_move_number s1 + 1\<rparr>"
      from Cons.prems go(2) have "r \<in> set (cur_errors (analyze_moves lib self ipw ipb ?s2 ms))"
        by simp
      from Cons.IH[OF this] here[OF go(1)] show ?thesis unfolding go(3) by auto
    next
      case stop
      from Cons.prems stop(2) have "r \<in> set (cur_errors s1)" by simp
      with here[OF stop(1)] show ?thesis unfolding stop(3) by auto
    qed
  qed
  from this[OF assms] show ?thesis unfolding src_def by blast
qed

lemma visited_plies_leave_their_record:
  assumes "(s, mv) \<in> set (visited_plies lib self ipw ipb st mvs)"
    and "should_analyze (turn lib (cur_board s)) ipw ipb"
    and "get_san lib (cur_board s) mv = Inr san_m"
    and "engine_answers lib s mv = Some (eval_b, eval_a, b_next, en_end)"
    and "r = spec_error_record lib self ipw s mv san_m (centipawns eval_b) (centipawns eval_a)"
    and "eval_change r \<le> inaccuracy_threshold self"
  shows "r \<in> set (cur_errors (analyze_moves lib self ipw ipb st mvs))"
  using assms(1)
proof (induction mvs arbitrary: st)
  case Nil
  then show ?case by simp
next
  case (Cons m ms)
  from analyze_moves_step[OF refl, of lib self ipw ipb st m ms]
  consider (ok) s1 where "analyze_move lib self ipw ipb st m = (None, s1)"
      "analyze_moves lib self ipw ipb st (m # ms) = analyze_moves lib self ipw ipb s1 ms"
      "visited_plies lib self ipw ipb st (m # ms) = (st, m) # visited_plies lib self ipw ipb s1 ms"
    | (go) e s1 b2 where "analyze_move lib self ipw ipb st m = (Some e, s1)"
      "analyze_moves lib self ipw ipb st (m # ms) = analyze_moves lib self ipw ipb
         (s1\<lparr>cur_board := b2, cur_move_number := cur_move_number s1 + 1\<rparr>) ms"
      "visited_plies lib self ipw ipb st (m # ms) = (st, m) # visited_plies lib self ipw ipb
         (s1\<lparr>cur_board := b2, cur_move_number := cur_move_number s1 + 1\<rparr>) ms"
    | (stop) e s1 b2 where "analyze_move lib self ipw ipb st m = (Some e, s1)"
      "analyze_moves lib self ipw ipb st (m # ms) = s1\<lparr>cur_board := b2\<rparr>"
      "visited_plies lib self ipw ipb st (m # ms) = [(st, m)]"
    by blast
  then show ?case
  proof cases
    case ok
    show ?thesis
    proof (cases "(s, mv) = (st, m)")
      case True
      with analyze_move_evaluated[OF assms(2,3,4), of self] assms(5,6) ok(1)
      have "r \<in> set (cur_errors s1)" by auto
      moreover from analyze_moves_prefix[of lib self ipw ipb s1 ms] obtain new where
        "cur_errors (analyze_moves lib self ipw ipb s1 ms) = cur_errors s1 @ new" by blast
      ultimately show ?thesis unfolding ok(2) by simp
    next
      case False
      with Cons.prems[unfolded ok(3)]
      have "(s, mv) \<in> set (visited_plies lib self ipw ipb s1 ms)" by auto
      from Cons.IH[OF this] show ?thesis unfolding ok(2) .
    qed
  next
    case go
    let ?s2 = "s1\<lparr>cur_board := b2, cur_move_number := cur_move_number s1 + 1\<rparr>"
    have "(s, mv) \<noteq> (st, m)"
      using analyze_move_evaluated[OF assms(2,3,4), of self] go(1) by auto
    with Cons.prems[unfolded go(3)]
    have "(s, mv) \<in> set (visited_plies lib self ipw ipb ?s2 ms)" by auto
    from Cons.IH[OF this] show ?thesis unfolding go(2) .
  next
    case stop
    have "(s, mv) \<noteq> (st, m)"
      using analyze_move_evaluated[OF assms(2,3,4), of self] stop(1) by auto
    with Cons.prems[unfolded stop(3)] show ?thesis by auto
  qed
qed

lemma spec_error_record_engine_update [simp]:
  "spec_error_record lib (self\<lparr>engine := x\<rparr>) = spec_error_record lib self"
  by (intro ext) (simp add: spec_error_record_def get_error_type_def)

lemma analyze_move_engine_update [simp]:
  "analyze_move lib (self\<lparr>engine := x\<rparr>) ipw ipb st mv = analyze_move lib self ipw ipb st mv"
  by (simp add: analyze_move_def Let_def cong: if_cong sum.case_cong prod.case_cong
        option.case_cong)

lemma analyze_moves_engine_update [simp]:
  "analyze_moves lib (self\<lparr>engine := x\<rparr>) ipw ipb st mvs = analyze_moves lib self ipw ipb st mvs"
  by (induction mvs arbitrary: st) (simp_all split: prod.splits option.splits)

lemma analyze_game_with_result:
  assumes "read_game lib pgn_text = Inr (Some gm)"
    and "game_board gm = Inr b0"
    and "is_w = (lower username = lower (headers_get (headers gm) ''White'' []))"
    and "is_b = (lower username = lower (headers_get (headers gm) ''Black'' []))"
  shows "fst (analyze_game_with lib self en pgn_text username) =
     Inr (if is_w \<or> is_b
          then cur_errors (analyze_moves lib self is_w is_b
                 \<lparr>cur_board = b0, cur_errors = [], cur_move_number = 1, cur_engine = en\<rparr>
                 (mainline_moves gm))
          else [])"
  using assms
  by (auto simp: analyze_game_with_def analyze_game_try_def Let_def)

lemma analyze_game_result:
  assumes "engine self = Some en \<or>
           (engine self = None \<and> popen_uci lib (engine_path self) = Inr en)"
    and "read_game lib pgn_text = Inr (Some gm)"
    and "game_board gm = Inr b0"
    and "is_w = (lower username = lower (headers_get (headers gm) ''White'' []))"
    and "is_b = (lower username = lower (headers_get (headers gm) ''Black'' []))"
  shows "fst (analyze_game lib self pgn_text username) =
     Inr (if is_w \<or> is_b
          then cur_errors (analyze_moves lib self is_w is_b
                 \<lparr>cur_board = b0, cur_errors = [], cur_move_number = 1, cur_engine = en\<rparr>
                 (mainline_moves gm))
          else [])"
  using assms(1)
proof
  assume "engine self = Some en"
  with analyze_game_with_result[OF assms(2-5), where self = self and en = en] show ?thesis
    by (simp add: analyze_game_def)
next
  assume "engine self = None \<and> popen_uci lib (engine_path self) = Inr en"
  with analyze_game_with_result[OF assms(2-5), where self = "self\<lparr>engine := Some en\<rparr>"
      and en = en]
  show ?thesis
    by (simp add: analyze_game_def initialize_engine_def)
qed

section \<open>Lemmas about the cache\<close>




lemma analysis_add_game:
  "analysis (snd (add_game md5_hexdigest db g username)) = analysis db"
  by (simp add: add_game_def Let_def)

lemma get_analysis_add_game:
  "get_analysis (snd (add_game md5_hexdigest db g username)) gid = get_analysis db gid"
  by (simp add: get_analysis_def analysis_add_game)













section \<open>The severity classifier\<close>

text \<open>
  C2. With the default thresholds \<open>-1.5\<close>, \<open>-0.8\<close>, \<open>-0.3\<close> of the constructor, the
  classifier is total and inclusive on the worse side: \<open>d \<le> -1.5\<close> is a Blunder,
  \<open>-1.5 < d \<le> -0.8\<close> a Mistake, \<open>-0.8 < d \<le> -0.3\<close> an Inaccuracy and \<open>d > -0.3\<close> is Good;
  so \<open>-1.5\<close>, \<open>-0.8\<close>, \<open>-0.3\<close>, \<open>-0.29\<close> give Blunder, Mistake, Inaccuracy, Good.
\<close>

theorem get_error_type_default_thresholds:
  fixes self :: "'e ChessAnalyzer" and d :: rat
  assumes "self = ChessAnalyzer_init path"
  shows "blunder_threshold self = -1.5 \<and> mistake_threshold self = -0.8
           \<and> inaccuracy_threshold self = -0.3
         \<and> (d \<le> -1.5 \<longrightarrow> get_error_type self d = ''Blunder'')
         \<and> (-1.5 < d \<and> d \<le> -0.8 \<longrightarrow> get_error_type self d = ''Mistake'')
         \<and> (-0.8 < d \<and> d \<le> -0.3 \<longrightarrow> get_error_type self d = ''Inaccuracy'')
         \<and> (-0.3 < d \<longrightarrow> get_error_type self d = ''Good'')
         \<and> get_error_type self (-1.5) = ''Blunder''
         \<and> get_error_type self (-0.8) = ''Mistake''
         \<and> get_error_type self (-0.3) = ''Inaccuracy''
         \<and> get_error_type self (-0.29) = ''Good''"
  using assms by (simp add: get_error_type_def ChessAnalyzer_init_def)

theorem get_error_type_default_thresholds_witness:
  "get_error_type (ChessAnalyzer_init ''stockfish'' :: unit ChessAnalyzer) (-1) = ''Mistake''
   \<and> (-1.5 :: rat) < -1 \<and> (-1 :: rat) \<le> -0.8"
  using get_error_type_default_thresholds
          [of "ChessAnalyzer_init ''stockfish'' :: unit ChessAnalyzer" "''stockfish''" "-1"]
  by simp

section \<open>The change of evaluation, seen from the side that moved\<close>

text \<open>
  C1. Take a game that parses, with an engine at hand, and the plies the loop of
  \<open>analyze_game\<close> goes through. On every ply of the tracked player whose two engine
  calls and push return, with \<open>before\<close> and \<open>after\<close> the centipawn values of the
  engine's answers on the board before the move and on the board after it, both from
  White's point of view, the iteration computes the record \<open>spec_error_record\<close>:
  its change of evaluation is \<open>after - before\<close> over 100 when White is to move on
  the board before the move and \<open>(- after) - (- before)\<close> over 100 when Black is.
  The iteration appends that record exactly when this change is at most the inaccuracy
  threshold, and the record is then in the returned list; conversely every returned
  record is the record of such a ply. For White to move, \<open>+0.50\<close> before and \<open>-1.00\<close>
  after give \<open>-1.50\<close>, a Blunder with the default thresholds.
\<close>

theorem eval_change_is_from_the_movers_perspective:
  assumes "engine self = Some en \<or>
           (engine self = None \<and> popen_uci lib (engine_path self) = Inr en)"
    and "read_game lib pgn_text = Inr (Some gm)"
    and "game_board gm = Inr b0"
    and "is_w = (lower username = lower (headers_get (headers gm) ''White'' []))"
    and "is_b = (lower username = lower (headers_get (headers gm) ''Black'' []))"
    and "plies = visited_plies lib self is_w is_b
           \<lparr>cur_board = b0, cur_errors = [], cur_move_number = 1, cur_engine = en\<rparr>
           (mainline_moves gm)"
  shows "(\<exists>errs self_after.
           analyze_game lib self pgn_text username = (Inr errs, self_after)
         \<and> (\<forall>(s, mv) \<in> set plies. \<forall>san_m eval_b eval_a b_next en_end.
               should_analyze (turn lib (cur_board s)) is_w is_b
             \<and> get_san lib (cur_board s) mv = Inr san_m
             \<and> engine_answers lib s mv = Some (eval_b, eval_a, b_next, en_end) \<longrightarrow>
               analyze_move lib self is_w is_b s mv =
                 (None, \<lparr>cur_board = b_next,
                    cur_errors =
                      (if eval_change (spec_error_record lib self is_w s mv san_m
                                         (centipawns eval_b) (centipawns eval_a))
                            \<le> inaccuracy_threshold self
                       then cur_errors s @
                              [spec_error_record lib self is_w s mv san_m
                                 (centipawns eval_b) (centipawns eval_a)]
                       else cur_errors s),
                    cur_move_number = cur_move_number s + 1, cur_engine = en_end\<rparr>)
             \<and> (eval_change (spec_error_record lib self is_w s mv san_m
                                 (centipawns eval_b) (centipawns eval_a))
                    \<le> inaccuracy_threshold self \<longrightarrow>
                  spec_error_record lib self is_w s mv san_m
                    (centipawns eval_b) (centipawns eval_a) \<in> set errs))
         \<and> (\<forall>r \<in> set errs. \<exists>(s, mv) \<in> set plies. \<exists>san_m eval_b eval_a b_next en_end.
               should_analyze (turn lib (cur_board s)) is_w is_b
             \<and> get_san lib (cur_board s) mv = Inr san_m
             \<and> engine_answers lib s mv = Some (eval_b, eval_a, b_next, en_end)
             \<and> r = spec_error_record lib self is_w s mv san_m
                     (centipawns eval_b) (centipawns eval_a)))
       \<and> eval_before (spec_error_record lib self w st mv0 san0 before after)
           = of_int before / 100
       \<and> eval_after (spec_error_record lib self w st mv0 san0 before after)
           = of_int after / 100
       \<and> (turn lib (cur_board st) \<longrightarrow>
             eval_change (spec_error_record lib self w st mv0 san0 before after)
               = of_int (after - before) / 100)
       \<and> (\<not> turn lib (cur_board st) \<longrightarrow>
             eval_change (spec_error_record lib self w st mv0 san0 before after)
               = of_int ((- after) - (- before)) / 100)
       \<and> (turn lib (cur_board st) \<longrightarrow>
             eval_change (spec_error_record lib self w st mv0 san0 50 (- 100)) = - 1.5
           \<and> (blunder_threshold self = - 1.5 \<longrightarrow>
                error_type (spec_error_record lib self w st mv0 san0 50 (- 100))
                  = ''Blunder''))"
proof -
  let ?st0 = "\<lparr>cur_board = b0, cur_errors = [], cur_move_number = 1, cur_engine = en\<rparr>"
  let ?final = "analyze_moves lib self is_w is_b ?st0 (mainline_moves gm)"
  let ?errs = "if is_w \<or> is_b then cur_errors ?final else []"
  from analyze_game_result[OF assms(1-5)]
  have res: "fst (analyze_game lib self pgn_text username) = Inr ?errs" .
  then obtain self_after where
    run: "analyze_game lib self pgn_text username = (Inr ?errs, self_after)"
    by (cases "analyze_game lib self pgn_text username") auto
  have fwd: "analyze_move lib self is_w is_b s mv =
                 (None, \<lparr>cur_board = b_next,
                    cur_errors =
                      (if eval_change (spec_error_record lib self is_w s mv san_m
                                         (centipawns eval_b) (centipawns eval_a))
                            \<le> inaccuracy_threshold self
                       then cur_errors s @
                              [spec_error_record lib self is_w s mv san_m
                                 (centipawns eval_b) (centipawns eval_a)]
                       else cur_errors s),
                    cur_move_number = cur_move_number s + 1, cur_engine = en_end\<rparr>)
             \<and> (eval_change (spec_error_record lib self is_w s mv san_m
                                 (centipawns eval_b) (centipawns eval_a))
                    \<le> inaccuracy_threshold self \<longrightarrow>
                  spec_error_record lib self is_w s mv san_m
                    (centipawns eval_b) (centipawns eval_a) \<in> set ?errs)"
    if mem: "(s, mv) \<in> set plies"
      and sa: "should_analyze (turn lib (cur_board s)) is_w is_b"
      and gs: "get_san lib (cur_board s) mv = Inr san_m"
      and ea: "engine_answers lib s mv = Some (eval_b, eval_a, b_next, en_end)"
    for s mv san_m eval_b eval_a b_next en_end
  proof -
    from sa have wb: "is_w \<or> is_b" by (auto simp: should_analyze_def)
    from visited_plies_leave_their_record[OF mem[unfolded assms(6)] sa gs ea refl] wb
    have "eval_change (spec_error_record lib self is_w s mv san_m
                                 (centipawns eval_b) (centipawns eval_a))
                    \<le> inaccuracy_threshold self \<longrightarrow>
                  spec_error_record lib self is_w s mv san_m
                    (centipawns eval_b) (centipawns eval_a) \<in> set ?errs"
      by simp
    with analyze_move_evaluated[OF sa gs ea, of self] show ?thesis by blast
  qed
  have bwd: "\<exists>(s, mv) \<in> set plies. \<exists>san_m eval_b eval_a b_next en_end.
               should_analyze (turn lib (cur_board s)) is_w is_b
             \<and> get_san lib (cur_board s) mv = Inr san_m
             \<and> engine_answers lib s mv = Some (eval_b, eval_a, b_next, en_end)
             \<and> r = spec_error_record lib self is_w s mv san_m
                     (centipawns eval_b) (centipawns eval_a)"
    if "r \<in> set ?errs" for r
  proof -
    from that have "r \<in> set (cur_errors ?final)" by (auto split: if_splits)
    from records_come_from_visited_plies[OF this] show ?thesis
      unfolding assms(6) by simp
  qed
  have game: "\<exists>errs self_after.
           analyze_game lib self pgn_text username = (Inr errs, self_after)
         \<and> (\<forall>(s, mv) \<in> set plies. \<forall>san_m eval_b eval_a b_next en_end.
               should_analyze (turn lib (cur_board s)) is_w is_b
             \<and> get_san lib (cur_board s) mv = Inr san_m
             \<and> engine_answers lib s mv = Some (eval_b, eval_a, b_next, en_end) \<longrightarrow>
               analyze_move lib self is_w is_b s mv =
                 (None, \<lparr>cur_board = b_next,
                    cur_errors =
                      (if eval_change (spec_error_record lib self is_w s mv san_m
                                         (centipawns eval_b) (centipawns eval_a))
                            \<le> inaccuracy_threshold self
                       then cur_errors s @
                              [spec_error_record lib self is_w s mv san_m
                                 (centipawns eval_b) (centipawns eval_a)]
                       else cur_errors s),
                    cur_move_number = cur_move_number s + 1, cur_engine = en_end\<rparr>)
             \<and> (eval_change (spec_error_record lib self is_w s mv san_m
                                 (centipawns eval_b) (centipawns eval_a))
                    \<le> inaccuracy_threshold self \<longrightarrow>
                  spec_error_record lib self is_w s mv san_m
                    (centipawns eval_b) (centipawns eval_a) \<in> set errs))
         \<and> (\<forall>r \<in> set errs. \<exists>(s, mv) \<in> set plies. \<exists>san_m eval_b eval_a b_next en_end.
               should_analyze (turn lib (cur_board s)) is_w is_b
             \<and> get_san lib (cur_board s) mv = Inr san_m
             \<and> engine_answers lib s mv = Some (eval_b, eval_a, b_next, en_end)
             \<and> r = spec_error_record lib self is_w s mv san_m
                     (centipawns eval_b) (centipawns eval_a))"
  proof (intro exI[of _ ?errs] exI[of _ self_after] conjI)
    show "analyze_game lib self pgn_text username = (Inr ?errs, self_after)" by (rule run)
  next
    show "\<forall>(s, mv) \<in> set plies. \<forall>san_m eval_b eval_a b_next en_end.
               should_analyze (turn lib (cur_board s)) is_w is_b
             \<and> get_san lib (cur_board s) mv = Inr san_m
             \<and> engine_answers lib s mv = Some (eval_b, eval_a, b_next, en_end) \<longrightarrow>
               analyze_move lib self is_w is_b s mv =
                 (None, \<lparr>cur_board = b_next,
                    cur_errors =
                      (if eval_change (spec_error_record lib self is_w s mv san_m
                                         (centipawns eval_b) (centipawns eval_a))
                            \<le> inaccuracy_threshold self
                       then cur_errors s @
                              [spec_error_record lib self is_w s mv san_m
                                 (centipawns eval_b) (centipawns eval_a)]
                       else cur_errors s),
                    cur_move_number = cur_move_number s + 1, cur_engine = en_end\<rparr>)
             \<and> (eval_change (spec_error_record lib self is_w s mv san_m
                                 (centipawns eval_b) (centipawns eval_a))
                    \<le> inaccuracy_threshold self \<longrightarrow>
                  spec_error_record lib self is_w s mv san_m
                    (centipawns eval_b) (centipawns eval_a) \<in> set ?errs)"
      using fwd by blast
  next
    show "\<forall>r \<in> set ?errs. \<exists>(s, mv) \<in> set plies. \<exists>san_m eval_b eval_a b_next en_end.
               should_analyze (turn lib (cur_board s)) is_w is_b
             \<and> get_san lib (cur_board s) mv = Inr san_m
             \<and> engine_answers lib s mv = Some (eval_b, eval_a, b_next, en_end)
             \<and> r = spec_error_record lib self is_w s mv san_m
                     (centipawns eval_b) (centipawns eval_a)"
      using bwd by blast
  qed
  have pins: "eval_before (spec_error_record lib self w st mv0 san0 before after)
           = of_int before / 100
       \<and> eval_after (spec_error_record lib self w st mv0 san0 before after)
           = of_int after / 100
       \<and> (turn lib (cur_board st) \<longrightarrow>
             eval_change (spec_error_record lib self w st mv0 san0 before after)
               = of_int (after - before) / 100)
       \<and> (\<not> turn lib (cur_board st) \<longrightarrow>
             eval_change (spec_error_record lib self w st mv0 san0 before after)
               = of_int ((- after) - (- before)) / 100)
       \<and> (turn lib (cur_board st) \<longrightarrow>
             eval_change (spec_error_record lib self w st mv0 san0 50 (- 100)) = - 1.5
           \<and> (blunder_threshold self = - 1.5 \<longrightarrow>
                error_type (spec_error_record lib self w st mv0 san0 50 (- 100))
                  = ''Blunder''))"
    by (simp add: spec_error_record_def get_error_type_def)
  from game pins show ?thesis by (rule conjI)
qed

theorem eval_change_is_from_the_movers_perspective_witness:
  "analyze_game (stub_lib alice_bob [''e2e4'', ''e7e5''] (scores_of [50, -100]) [])
       (ChessAnalyzer_init ''stockfish'') ''1. e4 e5'' ''alice''
     = (Inr [\<lparr>move_number = 1, move = ''e2e4'', fen_before = '' w'', eval_before = 0.5,
              eval_after = -1, eval_change = -1.5, san_move = ''e2e4'',
              error_type = ''Blunder'', player = ''White''\<rparr>],
        \<lparr>engine_path = ''stockfish'', engine = Some 2, blunder_threshold = -1.5,
          mistake_threshold = -0.8, inaccuracy_threshold = -0.3\<rparr>)
   \<and> engine_answers (stub_lib alice_bob [''e2e4'', ''e7e5''] (scores_of [50, -100]) [])
       \<lparr>cur_board = 0, cur_errors = [], cur_move_number = 1, cur_engine = 0\<rparr> ''e2e4''
     = Some (Some (Cp 50), Some (Cp (-100)), 1, 2)
   \<and> analyze_move (stub_lib alice_bob [''e2e4'', ''e7e5''] (scores_of [50, -100]) [])
       (ChessAnalyzer_init ''stockfish'') True False
       \<lparr>cur_board = 0, cur_errors = [], cur_move_number = 1, cur_engine = 0\<rparr> ''e2e4''
     = (None, \<lparr>cur_board = 1,
          cur_errors = [\<lparr>move_number = 1, move = ''e2e4'', fen_before = '' w'',
              eval_before = 0.5, eval_after = -1, eval_change = -1.5, san_move = ''e2e4'',
              error_type = ''Blunder'', player = ''White''\<rparr>],
          cur_move_number = 2, cur_engine = 2\<rparr>)"
proof -
  let ?lib = "stub_lib alice_bob [''e2e4'', ''e7e5''] (scores_of [50, -100]) []"
  let ?a = "ChessAnalyzer_init ''stockfish'' :: nat ChessAnalyzer"
  let ?gm = "\<lparr>headers = alice_bob, game_board = Inr (0::nat),
              mainline_moves = [''e2e4'', ''e7e5'']\<rparr>"
  let ?st0 = "\<lparr>cur_board = 0::nat, cur_errors = [], cur_move_number = 1, cur_engine = 0::nat\<rparr>"
  let ?r = "\<lparr>move_number = 1, move = ''e2e4'', fen_before = '' w'', eval_before = 0.5,
              eval_after = -1, eval_change = -1.5, san_move = ''e2e4'',
              error_type = ''Blunder'', player = ''White''\<rparr>"
  let ?plies = "visited_plies ?lib ?a True False ?st0 (mainline_moves ?gm)"
  have 1: "engine ?a = Some 0 \<or> (engine ?a = None \<and> popen_uci ?lib (engine_path ?a) = Inr 0)"
    by (simp add: ChessAnalyzer_init_def stub_lib_def)
  have 2: "read_game ?lib ''1. e4 e5'' = Inr (Some ?gm)" by (simp add: stub_lib_def)
  have 3: "game_board ?gm = Inr 0" by simp
  have 4: "True = (lower ''alice'' = lower (headers_get (headers ?gm) ''White'' []))"
    and 5: "False = (lower ''alice'' = lower (headers_get (headers ?gm) ''Black'' []))"
    by (simp_all add: headers_get_def alice_bob_def lower_def lower_char_def)
  have ans: "engine_answers ?lib ?st0 ''e2e4'' = Some (Some (Cp 50), Some (Cp (-100)), 1, 2)"
    by (simp add: engine_answers_def stub_defs)
  have sa: "should_analyze (turn ?lib (cur_board ?st0)) True False"
    by (simp add: should_analyze_def stub_defs)
  have gs: "get_san ?lib (cur_board ?st0) ''e2e4'' = Inr ''e2e4''"
    by (simp add: get_san_def stub_defs)
  have mem: "(?st0, ''e2e4'') \<in> set ?plies" by simp
  have rec: "spec_error_record ?lib ?a True ?st0 ''e2e4'' ''e2e4''
               (centipawns (Some (Cp 50))) (centipawns (Some (Cp (-100)))) = ?r"
    by (simp add: spec_error_record_def centipawns_def get_error_type_def
          ChessAnalyzer_init_def stub_defs)
  from eval_change_is_from_the_movers_perspective[OF 1 2 3 4 5 refl]
  obtain errs self_after where
    run: "analyze_game ?lib ?a ''1. e4 e5'' ''alice'' = (Inr errs, self_after)" and
    each: "\<forall>(s, mv) \<in> set ?plies. \<forall>san_m eval_b eval_a b_next en_end.
               should_analyze (turn ?lib (cur_board s)) True False
             \<and> get_san ?lib (cur_board s) mv = Inr san_m
             \<and> engine_answers ?lib s mv = Some (eval_b, eval_a, b_next, en_end) \<longrightarrow>
               analyze_move ?lib ?a True False s mv =
                 (None, \<lparr>cur_board = b_next,
                    cur_errors =
                      (if eval_change (spec_error_record ?lib ?a True s mv san_m
                                         (centipawns eval_b) (centipawns eval_a))
                            \<le> inaccuracy_threshold ?a
                       then cur_errors s @
                              [spec_error_record ?lib ?a True s mv san_m
                                 (centipawns eval_b) (centipawns eval_a)]
                       else cur_errors s),
                    cur_move_number = cur_move_number s + 1, cur_engine = en_end\<rparr>)
             \<and> (eval_change (spec_error_record ?lib ?a True s mv san_m
                                 (centipawns eval_b) (centipawns eval_a))
                    \<le> inaccuracy_threshold ?a \<longrightarrow>
                  spec_error_record ?lib ?a True s mv san_m
                    (centipawns eval_b) (centipawns eval_a) \<in> set errs)"
    by blast
  from each mem sa gs ans
  have "analyze_move ?lib ?a True False ?st0 ''e2e4'' =
          (None, \<lparr>cur_board = 1,
             cur_errors =
               (if eval_change (spec_error_record ?lib ?a True ?st0 ''e2e4'' ''e2e4''
                          (centipawns (Some (Cp 50))) (centipawns (Some (Cp (-100)))))
                     \<le> inaccuracy_threshold ?a
                then cur_errors ?st0 @
                       [spec_error_record ?lib ?a True ?st0 ''e2e4'' ''e2e4''
                          (centipawns (Some (Cp 50))) (centipawns (Some (Cp (-100))))]
                else cur_errors ?st0),
             cur_move_number = cur_move_number ?st0 + 1, cur_engine = 2\<rparr>)"
    by blast
  then have step: "analyze_move ?lib ?a True False ?st0 ''e2e4'' =
          (None, \<lparr>cur_board = 1, cur_errors = [?r], cur_move_number = 2, cur_engine = 2\<rparr>)"
    unfolding rec by (simp add: ChessAnalyzer_init_def)
  have "analyze_game ?lib ?a ''1. e4 e5'' ''alice''
     = (Inr [?r], \<lparr>engine_path = ''stockfish'', engine = Some 2, blunder_threshold = -1.5,
          mistake_threshold = -0.8, inaccuracy_threshold = -0.3\<rparr>)"
    by (simp add: run_defs stub_defs)
  with ans step show ?thesis by blast
qed

section \<open>Which moves become error records\<close>

text \<open>
  C6. A record is appended for a move of the tracked player, once both evaluations and
  the push have gone through, exactly when the change of evaluation in pawns is at most
  the inaccuracy threshold. Every record of the returned list has such a change, its
  tier is \<open>get_error_type\<close> of that change, and the tier is Blunder, Mistake or
  Inaccuracy, never Good. No assumption on the thresholds is needed.
\<close>

theorem emitted_records_are_never_good:
  "(analyze_game lib self pgn_text username = (Inr errs, self_after) \<and> r \<in> set errs \<longrightarrow>
       eval_change r \<le> inaccuracy_threshold self
     \<and> error_type r = get_error_type self (eval_change r)
     \<and> error_type r \<in> {''Blunder'', ''Mistake'', ''Inaccuracy''}
     \<and> error_type r \<noteq> ''Good'')
   \<and> (should_analyze (turn lib (cur_board st)) ipw ipb
        \<and> get_san lib (cur_board st) mv = Inr san_m
        \<and> analyse lib (cur_engine st) (cur_board st) = (Inr eval_b, en_mid)
        \<and> push lib (cur_board st) mv = (None, b_next)
        \<and> analyse lib en_mid b_next = (Inr eval_a, en_end) \<longrightarrow>
       cur_errors (snd (analyze_move lib self ipw ipb st mv)) =
         (if pawns (eval_change_centipawns (turn lib (cur_board st))
                      (centipawns eval_b) (centipawns eval_a)) \<le> inaccuracy_threshold self
          then cur_errors st @
                 [make_error self ipw (cur_move_number st) (uci lib mv) (fen lib (cur_board st))
                    san_m (turn lib (cur_board st)) (centipawns eval_b) (centipawns eval_a)]
          else cur_errors st))"
proof (intro conjI impI)
  assume a: "analyze_game lib self pgn_text username = (Inr errs, self_after) \<and> r \<in> set errs"
  then obtain b mn mv san_m eb ea w where
    le: "pawns (eval_change_centipawns (turn lib b) eb ea) \<le> inaccuracy_threshold self" and
    r: "r = make_error self w mn (uci lib mv) (fen lib b) san_m (turn lib b) eb ea"
    using analyze_game_errors[of lib self pgn_text username errs self_after r] by blast
  from r have c: "eval_change r = pawns (eval_change_centipawns (turn lib b) eb ea)"
    and t: "error_type r = get_error_type self (eval_change r)"
    by (simp_all add: make_error_def Let_def)
  from c le show "eval_change r \<le> inaccuracy_threshold self" by simp
  from t show "error_type r = get_error_type self (eval_change r)" .
  from c le t show "error_type r \<in> {''Blunder'', ''Mistake'', ''Inaccuracy''}"
    by (simp add: get_error_type_def)
  from c le t show "error_type r \<noteq> ''Good''"
    by (simp add: get_error_type_def)
next
  assume "should_analyze (turn lib (cur_board st)) ipw ipb
        \<and> get_san lib (cur_board st) mv = Inr san_m
        \<and> analyse lib (cur_engine st) (cur_board st) = (Inr eval_b, en_mid)
        \<and> push lib (cur_board st) mv = (None, b_next)
        \<and> analyse lib en_mid b_next = (Inr eval_a, en_end)"
  then show "cur_errors (snd (analyze_move lib self ipw ipb st mv)) =
         (if pawns (eval_change_centipawns (turn lib (cur_board st))
                      (centipawns eval_b) (centipawns eval_a)) \<le> inaccuracy_threshold self
          then cur_errors st @
                 [make_error self ipw (cur_move_number st) (uci lib mv) (fen lib (cur_board st))
                    san_m (turn lib (cur_board st)) (centipawns eval_b) (centipawns eval_a)]
          else cur_errors st)"
    by (simp add: analyze_move_def Let_def)
qed

theorem emitted_records_are_never_good_witness:
  "analyze_game (stub_lib alice_bob [''e2e4'', ''e7e5'', ''g1f3''] (scores_of [0, -40, -40, -35]) [])
       (ChessAnalyzer_init ''stockfish'') ''1. e4 e5 2. Nf3'' ''alice''
     = (Inr [\<lparr>move_number = 1, move = ''e2e4'', fen_before = '' w'', eval_before = 0,
              eval_after = -0.4, eval_change = -0.4, san_move = ''e2e4'',
              error_type = ''Inaccuracy'', player = ''White''\<rparr>],
        \<lparr>engine_path = ''stockfish'', engine = Some 4, blunder_threshold = -1.5,
          mistake_threshold = -0.8, inaccuracy_threshold = -0.3\<rparr>)
   \<and> (-0.4 :: rat) \<le> -0.3
   \<and> ''Inaccuracy'' \<in> {''Blunder'', ''Mistake'', ''Inaccuracy''}
   \<and> cur_errors (snd (analyze_move
        (stub_lib alice_bob [''e2e4'', ''e7e5'', ''g1f3''] (scores_of [0, -40, -40, -35]) [])
        (ChessAnalyzer_init ''stockfish'') True False
        \<lparr>cur_board = 2, cur_errors = [], cur_move_number = 3, cur_engine = 2\<rparr> ''g1f3'')) = []"
proof -
  let ?lib = "stub_lib alice_bob [''e2e4'', ''e7e5'', ''g1f3''] (scores_of [0, -40, -40, -35]) []"
  let ?a = "ChessAnalyzer_init ''stockfish'' :: nat ChessAnalyzer"
  let ?r = "\<lparr>move_number = 1, move = ''e2e4'', fen_before = '' w'', eval_before = 0,
              eval_after = -0.4, eval_change = -0.4, san_move = ''e2e4'',
              error_type = ''Inaccuracy'', player = ''White''\<rparr>"
  let ?self1 = "\<lparr>engine_path = ''stockfish'', engine = Some (4::nat), blunder_threshold = -1.5,
          mistake_threshold = -0.8, inaccuracy_threshold = -0.3\<rparr>"
  let ?st = "\<lparr>cur_board = 2::nat, cur_errors = [], cur_move_number = 3, cur_engine = 2::nat\<rparr>"
  have run: "analyze_game ?lib ?a ''1. e4 e5 2. Nf3'' ''alice'' = (Inr [?r], ?self1)"
    by (simp add: run_defs stub_defs)
  have ply: "should_analyze (turn ?lib (cur_board ?st)) True False
        \<and> get_san ?lib (cur_board ?st) ''g1f3'' = Inr ''g1f3''
        \<and> analyse ?lib (cur_engine ?st) (cur_board ?st) = (Inr (Some (Cp (-40))), 3)
        \<and> push ?lib (cur_board ?st) ''g1f3'' = (None, 3)
        \<and> analyse ?lib 3 3 = (Inr (Some (Cp (-35))), 4)"
    by (simp add: should_analyze_def get_san_def stub_defs)
  note inst = emitted_records_are_never_good[where lib = ?lib and self = ?a
      and pgn_text = "''1. e4 e5 2. Nf3''" and username = "''alice''" and errs = "[?r]"
      and self_after = ?self1 and r = ?r and st = ?st and ipw = True and ipb = False
      and mv = "''g1f3''" and san_m = "''g1f3''" and eval_b = "Some (Cp (-40))" and en_mid = 3
      and b_next = 3 and eval_a = "Some (Cp (-35))" and en_end = 4]
  from inst run have "eval_change ?r \<le> inaccuracy_threshold ?a
     \<and> error_type ?r \<in> {''Blunder'', ''Mistake'', ''Inaccuracy''}" by simp
  then have 1: "(-0.4 :: rat) \<le> -0.3 \<and> ''Inaccuracy'' \<in> {''Blunder'', ''Mistake'', ''Inaccuracy''}"
    by (simp add: ChessAnalyzer_init_def)
  from inst ply have "cur_errors (snd (analyze_move ?lib ?a True False ?st ''g1f3'')) =
         (if pawns (eval_change_centipawns (turn ?lib (cur_board ?st))
                      (centipawns (Some (Cp (-40)))) (centipawns (Some (Cp (-35)))))
               \<le> inaccuracy_threshold ?a
          then cur_errors ?st @
                 [make_error ?a True (cur_move_number ?st) (uci ?lib ''g1f3'')
                    (fen ?lib (cur_board ?st)) ''g1f3'' (turn ?lib (cur_board ?st))
                    (centipawns (Some (Cp (-40)))) (centipawns (Some (Cp (-35))))]
          else cur_errors ?st)" by blast
  then have 2: "cur_errors (snd (analyze_move ?lib ?a True False ?st ''g1f3'')) = []"
    by (simp add: stub_defs centipawns_def eval_change_centipawns_def pawns_def
          ChessAnalyzer_init_def)
  from run 1 2 show ?thesis by blast
qed

section \<open>The player label of a record\<close>

text \<open>
  C7 (as stated, refuted). With the same name in both headers the tracked player is
  taken for White and for Black, every ply is analyzed, and the label is
  \<^verbatim>\<open>'White'\<close> throughout: here the record of Black's move \<open>e7e5\<close>, evaluated on board
  \<open>1\<close> with Black to move, is labelled White.
\<close>

theorem player_label_counterexample:
  "analyze_game (stub_lib alice_alice [''e2e4'', ''e7e5''] (scores_of [0, 0, 100]) [])
       (ChessAnalyzer_init ''stockfish'') ''1. e4 e5'' ''alice''
     = (Inr [\<lparr>move_number = 2, move = ''e7e5'', fen_before = ''+ b'', eval_before = 0,
              eval_after = 1, eval_change = -1, san_move = ''e7e5'',
              error_type = ''Mistake'', player = ''White''\<rparr>],
        \<lparr>engine_path = ''stockfish'', engine = Some 4, blunder_threshold = -1.5,
          mistake_threshold = -0.8, inaccuracy_threshold = -0.3\<rparr>)
   \<and> fen (stub_lib alice_alice [''e2e4'', ''e7e5''] (scores_of [0, 0, 100]) []) 1 = ''+ b''
   \<and> \<not> turn (stub_lib alice_alice [''e2e4'', ''e7e5''] (scores_of [0, 0, 100]) []) 1"
  by (simp add: run_defs stub_defs)

text \<open>
  C7 (amended). When the two header names differ after lowering, every returned record
  carries the colour of the side to move on the board on which its move was evaluated.
\<close>

theorem player_label_is_the_mover_when_names_differ:
  assumes "analyze_game lib self pgn_text username = (Inr errs, self_after)"
    and "r \<in> set errs"
    and "read_game lib pgn_text = Inr (Some gm)"
    and "lower (headers_get (headers gm) ''White'' [])
           \<noteq> lower (headers_get (headers gm) ''Black'' [])"
  shows "\<exists>b. fen_before r = fen lib b
            \<and> player r = (if turn lib b then ''White'' else ''Black'')"
proof -
  let ?w = "lower username = lower (headers_get (headers gm) ''White'' [])"
  let ?b = "lower username = lower (headers_get (headers gm) ''Black'' [])"
  from analyze_game_errors[OF assms(1,2)] assms(3) obtain b mn mv san_m eb ea where
    sa: "should_analyze (turn lib b) ?w ?b" and
    r: "r = make_error self ?w mn (uci lib mv) (fen lib b) san_m (turn lib b) eb ea"
    by auto
  from assms(4) have "\<not> (?w \<and> ?b)" by auto
  with sa have "?w = turn lib b" by (auto simp: should_analyze_def)
  with r have "fen_before r = fen lib b
            \<and> player r = (if turn lib b then ''White'' else ''Black'')"
    by (simp add: make_error_def Let_def)
  then show ?thesis by blast
qed

theorem player_label_is_the_mover_when_names_differ_witness:
  "analyze_game (stub_lib alice_bob [''e2e4'', ''e7e5''] (scores_of [0, 0, 100]) [])
       (ChessAnalyzer_init ''stockfish'') ''1. e4 e5'' ''BOB''
     = (Inr [\<lparr>move_number = 2, move = ''e7e5'', fen_before = ''+ b'', eval_before = 0,
              eval_after = 1, eval_change = -1, san_move = ''e7e5'',
              error_type = ''Mistake'', player = ''Black''\<rparr>],
        \<lparr>engine_path = ''stockfish'', engine = Some 2, blunder_threshold = -1.5,
          mistake_threshold = -0.8, inaccuracy_threshold = -0.3\<rparr>)
   \<and> lower ''Alice'' \<noteq> lower ''bob''
   \<and> (\<exists>b. ''+ b'' = stub_fen b \<and> ''Black'' = (if even b then ''White'' else ''Black''))"
proof -
  let ?lib = "stub_lib alice_bob [''e2e4'', ''e7e5''] (scores_of [0, 0, 100]) []"
  let ?gm = "\<lparr>headers = alice_bob, game_board = Inr (0::nat),
              mainline_moves = [''e2e4'', ''e7e5'']\<rparr>"
  let ?r = "\<lparr>move_number = 2, move = ''e7e5'', fen_before = ''+ b'', eval_before = 0,
              eval_after = 1, eval_change = -1, san_move = ''e7e5'',
              error_type = ''Mistake'', player = ''Black''\<rparr>"
  let ?self1 = "\<lparr>engine_path = ''stockfish'', engine = Some (2::nat), blunder_threshold = -1.5,
          mistake_threshold = -0.8, inaccuracy_threshold = -0.3\<rparr>"
  have run: "analyze_game ?lib (ChessAnalyzer_init ''stockfish'') ''1. e4 e5'' ''BOB''
      = (Inr [?r], ?self1)"
    by (simp add: run_defs stub_defs)
  have mem: "?r \<in> set [?r]" by simp
  have rd: "read_game ?lib ''1. e4 e5'' = Inr (Some ?gm)" by (simp add: stub_lib_def)
  have ne: "lower (headers_get (headers ?gm) ''White'' [])
           \<noteq> lower (headers_get (headers ?gm) ''Black'' [])"
    by (simp add: headers_get_def alice_bob_def lower_def lower_char_def)
  from player_label_is_the_mover_when_names_differ[OF run mem rd ne]
  have "\<exists>b. ''+ b'' = stub_fen b \<and> ''Black'' = (if even b then ''White'' else ''Black'')"
    by (simp add: stub_lib_def)
  moreover have "lower ''Alice'' \<noteq> lower ''bob''" by (simp add: lower_def lower_char_def)
  ultimately show ?thesis using run by blast
qed

section \<open>A user name that is in neither header\<close>

text \<open>
  C4. When the lowered user name is neither the lowered White header nor the lowered
  Black header, \<open>analyze_game\<close> returns the empty list, and the analyzer it leaves is
  the one that acquiring the engine left: the state of the engine is untouched, so no
  position was evaluated and no move was walked.
\<close>

theorem analyze_game_unknown_player:
  assumes "read_game lib pgn_text = Inr (Some gm)"
    and "lower username \<noteq> lower (headers_get (headers gm) ''White'' [])"
    and "lower username \<noteq> lower (headers_get (headers gm) ''Black'' [])"
  shows "analyze_game lib self pgn_text username =
           (Inr [], if engine self = None then snd (initialize_engine lib self) else self)"
proof -
  have try_eq: "analyze_game_try lib a en pgn_text username = Inr ([], en)" for a en
    using assms by (simp add: analyze_game_try_def Let_def)
  have with_eq: "analyze_game_with lib a en pgn_text username = (Inr [], a)"
    if "engine a = Some en" for a :: "'c ChessAnalyzer" and en
  proof -
    from that have "a\<lparr>engine := Some en\<rparr> = a" by (cases a) simp
    then show ?thesis by (simp add: analyze_game_with_def try_eq)
  qed
  show ?thesis
  proof (cases "engine self")
    case (Some en)
    then show ?thesis by (simp add: analyze_game_def with_eq)
  next
    case None
    show ?thesis
    proof (cases "popen_uci lib (engine_path self)")
      case (Inl e)
      with None show ?thesis by (simp add: analyze_game_def initialize_engine_def)
    next
      case (Inr en)
      have "engine (self\<lparr>engine := Some en\<rparr>) = Some en" by simp
      from with_eq[OF this] None Inr show ?thesis
        by (simp add: analyze_game_def initialize_engine_def)
    qed
  qed
qed

theorem analyze_game_unknown_player_witness:
  "lower ''carol'' \<noteq> lower ''Alice'' \<and> lower ''carol'' \<noteq> lower ''bob''
   \<and> analyze_game (stub_lib alice_bob [''e2e4'', ''e7e5''] (scores_of [50, -100]) [])
       (ChessAnalyzer_init ''stockfish'') ''1. e4 e5'' ''carol''
     = (Inr [], \<lparr>engine_path = ''stockfish'', engine = Some 0, blunder_threshold = -1.5,
          mistake_threshold = -0.8, inaccuracy_threshold = -0.3\<rparr>)"
proof -
  let ?lib = "stub_lib alice_bob [''e2e4'', ''e7e5''] (scores_of [50, -100]) []"
  let ?gm = "\<lparr>headers = alice_bob, game_board = Inr (0::nat),
              mainline_moves = [''e2e4'', ''e7e5'']\<rparr>"
  have rd: "read_game ?lib ''1. e4 e5'' = Inr (Some ?gm)" by (simp add: stub_lib_def)
  have w: "lower ''carol'' \<noteq> lower (headers_get (headers ?gm) ''White'' [])"
    and b: "lower ''carol'' \<noteq> lower (headers_get (headers ?gm) ''Black'' [])"
    by (simp_all add: headers_get_def alice_bob_def lower_def lower_char_def)
  from analyze_game_unknown_player[OF rd w b, of "ChessAnalyzer_init ''stockfish''"] w b
  show ?thesis
    by (simp add: ChessAnalyzer_init_def initialize_engine_def stub_lib_def headers_get_def
          alice_bob_def)
qed

section \<open>A missing score\<close>

text \<open>
  C5. On a move of the tracked player, when both calls of the engine return and the
  push goes through, a call that returned no score contributes \<open>0\<close> centipawns: the
  iteration ends without an exception, with the move pushed, the counter advanced and
  the record appended or not by the usual test, and the loop goes on with the remaining
  moves.
\<close>

theorem missing_score_counts_as_zero:
  assumes "should_analyze (turn lib (cur_board st)) ipw ipb"
    and "get_san lib (cur_board st) mv = Inr san_m"
    and "analyse lib (cur_engine st) (cur_board st) = (Inr eval_b, en_mid)"
    and "push lib (cur_board st) mv = (None, b_next)"
    and "analyse lib en_mid b_next = (Inr eval_a, en_end)"
    and "cp_b = (case eval_b of None \<Rightarrow> 0 | Some s \<Rightarrow> score 10000 s)"
    and "cp_a = (case eval_a of None \<Rightarrow> 0 | Some s \<Rightarrow> score 10000 s)"
    and "st_next = \<lparr>cur_board = b_next,
           cur_errors =
             (if pawns (eval_change_centipawns (turn lib (cur_board st)) cp_b cp_a)
                   \<le> inaccuracy_threshold self
              then cur_errors st @
                     [make_error self ipw (cur_move_number st) (uci lib mv)
                        (fen lib (cur_board st)) san_m (turn lib (cur_board st)) cp_b cp_a]
              else cur_errors st),
           cur_move_number = cur_move_number st + 1, cur_engine = en_end\<rparr>"
  shows "analyze_move lib self ipw ipb st mv = (None, st_next)
       \<and> analyze_moves lib self ipw ipb st (mv # mvs) = analyze_moves lib self ipw ipb st_next mvs
       \<and> (eval_b = None \<longrightarrow> cp_b = 0) \<and> (eval_a = None \<longrightarrow> cp_a = 0)"
proof -
  from assms have step: "analyze_move lib self ipw ipb st mv = (None, st_next)"
    by (simp add: analyze_move_def centipawns_def Let_def)
  then have "analyze_moves lib self ipw ipb st (mv # mvs)
      = analyze_moves lib self ipw ipb st_next mvs" by simp
  with step assms(6,7) show ?thesis by simp
qed

theorem missing_score_counts_as_zero_witness:
  "analyze_move (stub_lib alice_bob [''e2e4'', ''e7e5'', ''g1f3''] (scores_of [50]) [])
       (ChessAnalyzer_init ''stockfish'') True False
       \<lparr>cur_board = 0, cur_errors = [], cur_move_number = 1, cur_engine = 0\<rparr> ''e2e4''
     = (None, \<lparr>cur_board = 1,
               cur_errors = [\<lparr>move_number = 1, move = ''e2e4'', fen_before = '' w'',
                 eval_before = 0.5, eval_after = 0, eval_change = -0.5, san_move = ''e2e4'',
                 error_type = ''Inaccuracy'', player = ''White''\<rparr>],
               cur_move_number = 2, cur_engine = 2\<rparr>)
   \<and> analyze_moves (stub_lib alice_bob [''e2e4'', ''e7e5'', ''g1f3''] (scores_of [50]) [])
       (ChessAnalyzer_init ''stockfish'') True False
       \<lparr>cur_board = 0, cur_errors = [], cur_move_number = 1, cur_engine = 0\<rparr>
       [''e2e4'', ''e7e5'', ''g1f3'']
     = \<lparr>cur_board = 3,
         cur_errors = [\<lparr>move_number = 1, move = ''e2e4'', fen_before = '' w'',
                 eval_before = 0.5, eval_after = 0, eval_change = -0.5, san_move = ''e2e4'',
                 error_type = ''Inaccuracy'', player = ''White''\<rparr>],
         cur_move_number = 4, cur_engine = 4\<rparr>"
proof -
  let ?lib = "stub_lib alice_bob [''e2e4'', ''e7e5'', ''g1f3''] (scores_of [50]) []"
  let ?a = "ChessAnalyzer_init ''stockfish'' :: nat ChessAnalyzer"
  let ?st = "\<lparr>cur_board = 0::nat, cur_errors = [], cur_move_number = 1, cur_engine = 0::nat\<rparr>"
  let ?r = "\<lparr>move_number = 1, move = ''e2e4'', fen_before = '' w'',
                 eval_before = 0.5, eval_after = 0, eval_change = -0.5, san_move = ''e2e4'',
                 error_type = ''Inaccuracy'', player = ''White''\<rparr>"
  let ?st1 = "\<lparr>cur_board = 1::nat, cur_errors = [?r], cur_move_number = 2,
               cur_engine = 2::nat\<rparr>"
  have 1: "should_analyze (turn ?lib (cur_board ?st)) True False"
    by (simp add: should_analyze_def stub_defs)
  have 2: "get_san ?lib (cur_board ?st) ''e2e4'' = Inr ''e2e4''"
    by (simp add: get_san_def stub_defs)
  have 3: "analyse ?lib (cur_engine ?st) (cur_board ?st) = (Inr (Some (Cp 50)), 1)"
    by (simp add: stub_defs)
  have 4: "push ?lib (cur_board ?st) ''e2e4'' = (None, 1)" by (simp add: stub_defs)
  have 5: "analyse ?lib 1 1 = (Inr None, 2)" by (simp add: stub_defs)
  have 6: "(50::int) = (case Some (Cp 50) of None \<Rightarrow> 0 | Some s \<Rightarrow> score 10000 s)" by simp
  have 7: "(0::int) = (case None of None \<Rightarrow> 0 | Some s \<Rightarrow> score 10000 s)" by simp
  have 8: "?st1 = \<lparr>cur_board = 1,
           cur_errors =
             (if pawns (eval_change_centipawns (turn ?lib (cur_board ?st)) 50 0)
                   \<le> inaccuracy_threshold ?a
              then cur_errors ?st @
                     [make_error ?a True (cur_move_number ?st) (uci ?lib ''e2e4'')
                        (fen ?lib (cur_board ?st)) ''e2e4'' (turn ?lib (cur_board ?st)) 50 0]
              else cur_errors ?st),
           cur_move_number = cur_move_number ?st + 1, cur_engine = 2\<rparr>"
    by (simp add: run_defs stub_defs)
  from missing_score_counts_as_zero[OF 1 2 3 4 5 6 7 8, of "[''e7e5'', ''g1f3'']"]
  have "analyze_move ?lib ?a True False ?st ''e2e4'' = (None, ?st1)"
    and "analyze_moves ?lib ?a True False ?st [''e2e4'', ''e7e5'', ''g1f3'']
       = analyze_moves ?lib ?a True False ?st1 [''e7e5'', ''g1f3'']"
    by simp_all
  moreover have "analyze_moves ?lib ?a True False ?st1 [''e7e5'', ''g1f3'']
      = \<lparr>cur_board = 3, cur_errors = [?r], cur_move_number = 4, cur_engine = 4\<rparr>"
    by (simp add: run_defs stub_defs)
  ultimately show ?thesis by simp
qed

section \<open>Mate scores\<close>

text \<open>
  C8 (as stated, refuted). The centipawn value of a forced mate is not the same for
  every distance: mate in one and mate in two give \<open>9999\<close> and \<open>9998\<close>.
\<close>

theorem mate_score_counterexample:
  "centipawns (Some (Mate 1)) = 9999 \<and> centipawns (Some (Mate 2)) = 9998"
  by (simp add: centipawns_def)

text \<open>
  C8 (amended). A forced mate in \<open>n\<close> is turned into centipawns next to the extreme
  magnitude \<open>10000\<close>, at distance \<open>n\<close> from it: \<open>10000 - n\<close> when White mates
  (\<open>n > 0\<close>), \<open>- 10000 - n\<close> when Black does (\<open>n \<le> 0\<close>); a mate already on the board
  gives \<open>10000\<close>.
\<close>

theorem mate_score_depends_on_the_distance:
  "(0 < n \<longrightarrow> centipawns (Some (Mate n)) = 10000 - n)
   \<and> (n \<le> 0 \<longrightarrow> centipawns (Some (Mate n)) = - 10000 - n)
   \<and> centipawns (Some MateGiven) = 10000"
  by (simp add: centipawns_def)

theorem mate_score_depends_on_the_distance_witness:
  "(0::int) < 3 \<and> centipawns (Some (Mate 3)) = 9997
   \<and> (-3::int) \<le> 0 \<and> centipawns (Some (Mate (-3))) = -9997"
  using mate_score_depends_on_the_distance[of 3] mate_score_depends_on_the_distance[of "-3"]
  by simp

section \<open>Exceptions during the walk\<close>

text \<open>
  C3. \<open>analyze_game\<close> always returns a list. With an engine at hand and a game whose
  headers name the user, that list is the error list of the loop's final state. In the
  loop, an iteration that raises has appended nothing; the handler pushes the move:
  when that push goes through, the loop goes on with the next move and the counter
  advanced, and when it raises too, the loop stops there and its errors are the ones
  accumulated before this move. Whatever happens on later moves, the errors accumulated
  so far stay at the front of the list.
\<close>

theorem analyze_game_isolates_ply_failures:
  "(\<exists>errs self_after. analyze_game lib self pgn_text username = (Inr errs, self_after))
   \<and> (engine self = Some en \<and> read_game lib pgn_text = Inr (Some gm)
        \<and> game_board gm = Inr b0
        \<and> is_w = (lower username = lower (headers_get (headers gm) ''White'' []))
        \<and> is_b = (lower username = lower (headers_get (headers gm) ''Black'' []))
        \<and> (is_w \<or> is_b) \<longrightarrow>
       fst (analyze_game lib self pgn_text username) =
         Inr (cur_errors (analyze_moves lib self is_w is_b
                \<lparr>cur_board = b0, cur_errors = [], cur_move_number = 1, cur_engine = en\<rparr>
                (mainline_moves gm))))
   \<and> (analyze_move lib self ipw ipb st mv = (Some e, st1) \<longrightarrow>
        cur_errors st1 = cur_errors st
      \<and> (case push lib (cur_board st1) mv of
            (None, b2) \<Rightarrow>
              analyze_moves lib self ipw ipb st (mv # mvs) =
                analyze_moves lib self ipw ipb
                  (st1\<lparr>cur_board := b2, cur_move_number := cur_move_number st1 + 1\<rparr>) mvs
          | (Some e2, b2) \<Rightarrow>
              analyze_moves lib self ipw ipb st (mv # mvs) = st1\<lparr>cur_board := b2\<rparr>
            \<and> cur_errors (analyze_moves lib self ipw ipb st (mv # mvs)) = cur_errors st))
   \<and> (\<exists>new. cur_errors (analyze_moves lib self ipw ipb st mvs) = cur_errors st @ new)"
proof (intro conjI impI)
  show "\<exists>errs self_after. analyze_game lib self pgn_text username = (Inr errs, self_after)"
    by (rule analyze_game_returns)
next
  assume a: "engine self = Some en \<and> read_game lib pgn_text = Inr (Some gm)
        \<and> game_board gm = Inr b0
        \<and> is_w = (lower username = lower (headers_get (headers gm) ''White'' []))
        \<and> is_b = (lower username = lower (headers_get (headers gm) ''Black'' []))
        \<and> (is_w \<or> is_b)"
  then show "fst (analyze_game lib self pgn_text username) =
         Inr (cur_errors (analyze_moves lib self is_w is_b
                \<lparr>cur_board = b0, cur_errors = [], cur_move_number = 1, cur_engine = en\<rparr>
                (mainline_moves gm)))"
    by (auto simp: analyze_game_def analyze_game_with_def analyze_game_try_def Let_def)
next
  assume step: "analyze_move lib self ipw ipb st mv = (Some e, st1)"
  from analyze_move_raises_errors[OF step] show same: "cur_errors st1 = cur_errors st" .
  show "case push lib (cur_board st1) mv of
            (None, b2) \<Rightarrow>
              analyze_moves lib self ipw ipb st (mv # mvs) =
                analyze_moves lib self ipw ipb
                  (st1\<lparr>cur_board := b2, cur_move_number := cur_move_number st1 + 1\<rparr>) mvs
          | (Some e2, b2) \<Rightarrow>
              analyze_moves lib self ipw ipb st (mv # mvs) = st1\<lparr>cur_board := b2\<rparr>
            \<and> cur_errors (analyze_moves lib self ipw ipb st (mv # mvs)) = cur_errors st"
    using step same by (simp split: prod.splits option.splits)
next
  show "\<exists>new. cur_errors (analyze_moves lib self ipw ipb st mvs) = cur_errors st @ new"
    by (rule analyze_moves_prefix)
qed

theorem analyze_game_isolates_ply_failures_witness:
  "analyze_moves
       (stub_lib alice_bob [''e2e4'', ''e7e5'', ''g1f3'', ''b8c6'']
          (\<lambda>b. if b = 0 then Inl EngineError else scores_of [0, 0, 0, -100] b) [3])
       (ChessAnalyzer_init ''stockfish'') True False
       \<lparr>cur_board = 0, cur_errors = [], cur_move_number = 1, cur_engine = 0\<rparr>
       [''e2e4'', ''e7e5'', ''g1f3'', ''b8c6'']
     = analyze_moves
       (stub_lib alice_bob [''e2e4'', ''e7e5'', ''g1f3'', ''b8c6'']
          (\<lambda>b. if b = 0 then Inl EngineError else scores_of [0, 0, 0, -100] b) [3])
       (ChessAnalyzer_init ''stockfish'') True False
       \<lparr>cur_board = 1, cur_errors = [], cur_move_number = 2, cur_engine = 1\<rparr>
       [''e7e5'', ''g1f3'', ''b8c6'']
   \<and> cur_errors (analyze_moves
       (stub_lib alice_bob [''e2e4'', ''e7e5'', ''g1f3'', ''b8c6'']
          (\<lambda>b. if b = 0 then Inl EngineError else scores_of [0, 0, 0, -100] b) [3])
       (ChessAnalyzer_init ''stockfish'') True False
       \<lparr>cur_board = 3,
         cur_errors = [\<lparr>move_number = 3, move = ''g1f3'', fen_before = ''++ w'',
           eval_before = 0, eval_after = -1, eval_change = -1, san_move = ''g1f3'',
           error_type = ''Mistake'', player = ''White''\<rparr>],
         cur_move_number = 4, cur_engine = 3\<rparr>
       [''b8c6''])
     = [\<lparr>move_number = 3, move = ''g1f3'', fen_before = ''++ w'',
           eval_before = 0, eval_after = -1, eval_change = -1, san_move = ''g1f3'',
           error_type = ''Mistake'', player = ''White''\<rparr>]
   \<and> fst (analyze_game
       (stub_lib alice_bob [''e2e4'', ''e7e5'', ''g1f3'', ''b8c6'']
          (\<lambda>b. if b = 0 then Inl EngineError else scores_of [0, 0, 0, -100] b) [3])
       ((ChessAnalyzer_init ''stockfish'')\<lparr>engine := Some 0\<rparr>)
       ''1. e4 e5 2. Nf3 Nc6'' ''alice'')
     = Inr [\<lparr>move_number = 3, move = ''g1f3'', fen_before = ''++ w'',
           eval_before = 0, eval_after = -1, eval_change = -1, san_move = ''g1f3'',
           error_type = ''Mistake'', player = ''White''\<rparr>]"
proof -
  let ?lib = "stub_lib alice_bob [''e2e4'', ''e7e5'', ''g1f3'', ''b8c6'']
          (\<lambda>b. if b = 0 then Inl EngineError else scores_of [0, 0, 0, -100] b) [3]"
  let ?a = "ChessAnalyzer_init ''stockfish'' :: nat ChessAnalyzer"
  let ?r = "\<lparr>move_number = 3, move = ''g1f3'', fen_before = ''++ w'',
           eval_before = 0, eval_after = -1, eval_change = -1, san_move = ''g1f3'',
           error_type = ''Mistake'', player = ''White''\<rparr>"
  let ?st0 = "\<lparr>cur_board = 0::nat, cur_errors = [], cur_move_number = 1, cur_engine = 0::nat\<rparr>"
  let ?st0' = "\<lparr>cur_board = 0::nat, cur_errors = [], cur_move_number = 1, cur_engine = 1::nat\<rparr>"
  let ?st3 = "\<lparr>cur_board = 3::nat, cur_errors = [?r], cur_move_number = 4,
                cur_engine = 3::nat\<rparr>"
  have first: "analyze_move ?lib ?a True False ?st0 ''e2e4'' = (Some EngineError, ?st0')"
    by (simp add: run_defs stub_defs)
  have last: "analyze_move ?lib ?a True False ?st3 ''b8c6'' = (Some AssertionError, ?st3)"
    by (simp add: run_defs stub_defs)
  have p0: "push ?lib (cur_board ?st0') ''e2e4'' = (None, 1)" by (simp add: stub_defs)
  have p3: "push ?lib (cur_board ?st3) ''b8c6'' = (Some AssertionError, 3)"
    by (simp add: stub_defs)
  from analyze_game_isolates_ply_failures[where lib = ?lib and self = ?a and ipw = True
      and ipb = False and st = ?st0 and mv = "''e2e4''" and e = EngineError
      and ?st1.0 = ?st0' and mvs = "[''e7e5'', ''g1f3'', ''b8c6'']"] first p0
  have 1: "analyze_moves ?lib ?a True False ?st0 [''e2e4'', ''e7e5'', ''g1f3'', ''b8c6'']
      = analyze_moves ?lib ?a True False
          \<lparr>cur_board = 1, cur_errors = [], cur_move_number = 2, cur_engine = 1\<rparr>
          [''e7e5'', ''g1f3'', ''b8c6'']"
    by simp
  from analyze_game_isolates_ply_failures[where lib = ?lib and self = ?a and ipw = True
      and ipb = False and st = ?st3 and mv = "''b8c6''" and e = AssertionError
      and ?st1.0 = ?st3 and mvs = "[]"] last p3
  have 2: "cur_errors (analyze_moves ?lib ?a True False ?st3 [''b8c6'']) = [?r]"
    by simp
  let ?a0 = "?a\<lparr>engine := Some 0\<rparr>"
  let ?gm = "\<lparr>headers = alice_bob, game_board = Inr (0::nat),
              mainline_moves = [''e2e4'', ''e7e5'', ''g1f3'', ''b8c6'']\<rparr>"
  have g: "engine ?a0 = Some 0 \<and> read_game ?lib ''1. e4 e5 2. Nf3 Nc6'' = Inr (Some ?gm)
        \<and> game_board ?gm = Inr 0
        \<and> True = (lower ''alice'' = lower (headers_get (headers ?gm) ''White'' []))
        \<and> False = (lower ''alice'' = lower (headers_get (headers ?gm) ''Black'' []))
        \<and> (True \<or> False)"
    by (simp add: stub_defs headers_get_def lower_def lower_char_def)
  from analyze_game_isolates_ply_failures[where lib = ?lib and self = ?a0
      and pgn_text = "''1. e4 e5 2. Nf3 Nc6''" and username = "''alice''" and en = 0
      and gm = ?gm and ?b0.0 = 0 and is_w = True and is_b = False] g
  have "fst (analyze_game ?lib ?a0 ''1. e4 e5 2. Nf3 Nc6'' ''alice'') =
         Inr (cur_errors (analyze_moves ?lib ?a0 True False ?st0
                (mainline_moves ?gm)))"
    by blast
  also have "cur_errors (analyze_moves ?lib ?a0 True False ?st0 (mainline_moves ?gm)) = [?r]"
    by (simp add: run_defs stub_defs)
  finally have 3: "fst (analyze_game ?lib ?a0 ''1. e4 e5 2. Nf3 Nc6'' ''alice'') = Inr [?r]" .
  from 1 2 3 show ?thesis by blast
qed

section \<open>The cache key\<close>

text \<open>
  C10. The identifier of a game is the hash of the first 100 characters of its PGN
  followed by the user name. Two PGN texts with the same first 100 characters get the
  same identifier for the same user, whatever the hash; so the second of two such
  games finds the row of the first in the table and shares its cache entry.
\<close>

theorem generate_game_id_reads_only_the_first_100_characters:
  assumes "take 100 pgn1 = take 100 pgn2"
  shows "generate_game_id md5_hexdigest pgn1 username
           = generate_game_id md5_hexdigest pgn2 username
       \<and> (g_pgn g1 = Some pgn1 \<and> g_pgn g2 = Some pgn2 \<longrightarrow>
            fst (add_game md5_hexdigest db g2 username)
              = fst (add_game md5_hexdigest db g1 username)
          \<and> add_game md5_hexdigest (snd (add_game md5_hexdigest db g1 username)) g2 username
              = add_game md5_hexdigest db g1 username)"
proof -
  from assms have ids: "generate_game_id md5_hexdigest pgn1 username
           = generate_game_id md5_hexdigest pgn2 username"
    by (simp add: generate_game_id_def)
  have "fst (add_game md5_hexdigest db g2 username)
              = fst (add_game md5_hexdigest db g1 username)
          \<and> add_game md5_hexdigest (snd (add_game md5_hexdigest db g1 username)) g2 username
              = add_game md5_hexdigest db g1 username"
    if "g_pgn g1 = Some pgn1" "g_pgn g2 = Some pgn2"
    using that ids by (simp add: add_game_def Let_def game_exists_def)
  with ids show ?thesis by blast
qed

theorem generate_game_id_reads_only_the_first_100_characters_witness:
  "replicate 100 (CHR ''x'') @ ''1. e4 e5'' \<noteq> replicate 100 (CHR ''x'') @ ''1. d4 d5''
   \<and> take 100 (replicate 100 (CHR ''x'') @ ''1. e4 e5'')
       = take 100 (replicate 100 (CHR ''x'') @ ''1. d4 d5'')
   \<and> generate_game_id (\<lambda>s. s) (replicate 100 (CHR ''x'') @ ''1. e4 e5'') ''alice''
       = generate_game_id (\<lambda>s. s) (replicate 100 (CHR ''x'') @ ''1. d4 d5'') ''alice''"
proof -
  have t: "take 100 (replicate 100 (CHR ''x'') @ ''1. e4 e5'')
       = take 100 (replicate 100 (CHR ''x'') @ ''1. d4 d5'')" by simp
  from generate_game_id_reads_only_the_first_100_characters[OF t, of "\<lambda>s. s" "''alice''"] t
  show ?thesis by simp
qed

section \<open>Games that are already analyzed\<close>



end
